theory Spec2Isabelle
  imports Complex_Main
begin

section \<open>Discovergy sensor platform: data model\<close>

text \<open>
  The embedding follows \<^verbatim>\<open>homeassistant/components/discovergy/sensor.py\<close>.
  Python objects that are mutated or shared (the coordinators) live in an explicit
  store and are referred to by address; exceptions are values of the type \<open>exn\<close>;
  the three nested \<^verbatim>\<open>for\<close> loops of \<^verbatim>\<open>async_setup_entry\<close> are three recursive
  functions over the lists they iterate.
\<close>

subsection \<open>Vendor objects: Meter, Reading, the API client\<close>

record Location =
  street :: string
  street_number :: string

text \<open>
  \<open>get_meter_id\<close> is the value returned by the vendor method of that name,
  \<open>meter_type\<close> is the attribute \<^verbatim>\<open>type\<close>.
\<close>

record Meter =
  get_meter_id :: string
  full_serial_number :: string
  measurement_type :: string
  meter_type :: string
  location :: Location

text \<open>
  A raw value is a Python \<^verbatim>\<open>int\<close> or a finite Python \<^verbatim>\<open>float\<close>. A float is
  modelled by its value, a rational number; the sign of a zero, the infinities and
  NaN are not modelled.
\<close>

datatype number = PyInt int | PyFloat rat

record Reading =
  reading_time :: int
  reading_values :: "string \<rightharpoonup> number"

text \<open>
  What \<^verbatim>\<open>get_last_reading\<close> can raise: the two exception classes the source
  names, and any other subclass of \<^verbatim>\<open>Exception\<close>. The string is \<^verbatim>\<open>str(err)\<close>.
  An exception that is not an \<^verbatim>\<open>Exception\<close> (a cancellation, an interrupt) is caught
  by no clause of the source and is not part of the model.
\<close>

datatype vendor_exn = AccessTokenExpired | HTTPError string | OtherException string

text \<open>
  The vendor client. The answer to a fetch is a function of the meter id: the setup
  fetches once for each meter of its list.
\<close>

record Discovergy =
  get_last_reading :: "string \<Rightarrow> vendor_exn + Reading"

subsection \<open>Exceptions raised by this module and by the interpreter\<close>

datatype exn =
    ConfigEntryAuthFailed string
  | UpdateFailed string
  | AttributeError
  | KeyError string
  | ZeroDivisionError
  | OverflowError

subsection \<open>Sensor descriptions\<close>

datatype unit_of_measurement = CUBIC_METERS | WATT | VOLT | KILO_WATT_HOUR

datatype SensorDeviceClass = GAS | POWER | VOLTAGE | ENERGY

datatype SensorStateClass = TOTAL_INCREASING | MEASUREMENT

record DiscovergySensorEntityDescription =
  key :: string
  translation_key :: string
  native_unit_of_measurement :: unit_of_measurement
  suggested_display_precision :: int
  device_class :: SensorDeviceClass
  state_class :: SensorStateClass
  entity_registry_enabled_default :: bool
  alternative_keys :: "string list"
  scale :: int

text \<open>
  The dataclass constructor with the defaults of its fields: \<open>alternative_keys\<close>
  defaults to the empty list and \<open>scale\<close> to 1000 (\<^verbatim>\<open>DiscovergyMixin\<close>),
  \<open>entity_registry_enabled_default\<close> to \<open>True\<close> (the host's entity description).
  A keyword that a table entry overrides is a record update on the result.
\<close>

definition description ::
  "string \<Rightarrow> string \<Rightarrow> unit_of_measurement \<Rightarrow> int \<Rightarrow> SensorDeviceClass \<Rightarrow> SensorStateClass
     \<Rightarrow> DiscovergySensorEntityDescription" where
  "description k tk u p dc sc =
     \<lparr> key = k, translation_key = tk, native_unit_of_measurement = u,
       suggested_display_precision = p, device_class = dc, state_class = sc,
       entity_registry_enabled_default = True, alternative_keys = [], scale = 1000 \<rparr>"

definition GAS_SENSORS :: "DiscovergySensorEntityDescription list" where
  "GAS_SENSORS =
     [ description ''volume'' ''total_gas_consumption'' CUBIC_METERS 4 GAS TOTAL_INCREASING ]"

definition ELECTRICITY_SENSORS :: "DiscovergySensorEntityDescription list" where
  "ELECTRICITY_SENSORS =
     [ description ''power'' ''total_power'' WATT 3 POWER MEASUREMENT,
       (description ''power1'' ''phase_1_power'' WATT 3 POWER MEASUREMENT)
         \<lparr> entity_registry_enabled_default := False, alternative_keys := [''phase1Power''] \<rparr>,
       (description ''power2'' ''phase_2_power'' WATT 3 POWER MEASUREMENT)
         \<lparr> entity_registry_enabled_default := False, alternative_keys := [''phase2Power''] \<rparr>,
       (description ''power3'' ''phase_3_power'' WATT 3 POWER MEASUREMENT)
         \<lparr> entity_registry_enabled_default := False, alternative_keys := [''phase3Power''] \<rparr>,
       (description ''phase1Voltage'' ''phase_1_voltage'' VOLT 1 VOLTAGE MEASUREMENT)
         \<lparr> entity_registry_enabled_default := False \<rparr>,
       (description ''phase2Voltage'' ''phase_2_voltage'' VOLT 1 VOLTAGE MEASUREMENT)
         \<lparr> entity_registry_enabled_default := False \<rparr>,
       (description ''phase3Voltage'' ''phase_3_voltage'' VOLT 1 VOLTAGE MEASUREMENT)
         \<lparr> entity_registry_enabled_default := False \<rparr>,
       (description ''energy'' ''total_consumption'' KILO_WATT_HOUR 4 ENERGY TOTAL_INCREASING)
         \<lparr> scale := 10000000000 \<rparr>,
       (description ''energyOut'' ''total_production'' KILO_WATT_HOUR 4 ENERGY TOTAL_INCREASING)
         \<lparr> scale := 10000000000 \<rparr> ]"

subsection \<open>Configuration entry, constants of the package, integration data\<close>

record ConfigEntry =
  entry_id :: string
  options :: "string \<rightharpoonup> int"

text \<open>
  The constants imported from \<^verbatim>\<open>.const\<close> are not part of this file; they are
  a parameter of every function that reads one.
\<close>

record const =
  CONF_TIME_BETWEEN_UPDATE :: string
  DEFAULT_TIME_BETWEEN_UPDATE :: int
  DOMAIN :: string
  MANUFACTURER :: string

text \<open>
  \<^verbatim>\<open>DiscovergyData\<close> as \<^verbatim>\<open>async_setup_entry\<close> reads it. Its third attribute,
  the dictionary \<^verbatim>\<open>coordinators\<close>, is written by the setup and is part of the state below.
\<close>

record DiscovergyData =
  api_client :: Discovergy
  meters :: "Meter list"

subsection \<open>Coordinators, entities and the state\<close>

type_synonym ref = nat

text \<open>
  A \<^verbatim>\<open>DataUpdateCoordinator\<close> object. \<open>update_method\<close> is the closure
  \<^verbatim>\<open>async_update_data\<close>, a function of no argument; \<open>update_interval\<close> is in seconds;
  \<open>coordinator_data\<close> is the attribute \<^verbatim>\<open>data\<close>, \<open>None\<close> until a refresh succeeds.
  The handles \<^verbatim>\<open>hass\<close> and \<^verbatim>\<open>_LOGGER\<close> that the constructor also receives are
  read by nothing in this file and are left out.
\<close>

record DataUpdateCoordinator =
  coordinator_name :: string
  update_method :: "unit \<Rightarrow> exn + Reading"
  update_interval :: int
  config_entry :: "ConfigEntry option"
  coordinator_data :: "Reading option"

record device_info =
  ATTR_IDENTIFIERS :: "(string \<times> string) set"
  ATTR_NAME :: string
  ATTR_MODEL :: string
  ATTR_MANUFACTURER :: string

text \<open>
  A \<^verbatim>\<open>DiscovergySensor\<close> object: \<open>coordinator\<close> is the reference kept by
  \<^verbatim>\<open>CoordinatorEntity.__init__\<close>; \<open>entity_description\<close> is the description the
  entity was built from, held by value.
\<close>

record DiscovergySensor =
  coordinator :: ref
  data_key :: string
  entity_description :: DiscovergySensorEntityDescription
  attr_unique_id :: string
  attr_device_info :: device_info

text \<open>
  The effects of the setup in the order they happen: a coordinator is constructed,
  its first refresh is awaited, it is stored under a meter id, an entity is constructed.
\<close>

datatype event =
    CoordinatorCreated ref
  | FirstRefresh ref
  | CoordinatorStored string ref
  | EntityBuilt DiscovergySensor

text \<open>
  The state the module reads and writes:
  \<^item> \<open>gas_sensors\<close> and \<open>electricity_sensors\<close>: the module globals
    \<^verbatim>\<open>GAS_SENSORS\<close> and \<^verbatim>\<open>ELECTRICITY_SENSORS\<close>, tuples of mutable dataclass
    instances, as they are now;
  \<^item> \<open>heap\<close> and \<open>allocated\<close>: the coordinator objects by address; the addresses
    below \<open>allocated\<close> are in use, and a new object takes the address \<open>allocated\<close>;
  \<^item> \<open>coordinators\<close>: the dictionary \<^verbatim>\<open>data.coordinators\<close>, from meter id to
    coordinator;
  \<^item> \<open>trace\<close>: the events so far.
\<close>

record state =
  gas_sensors :: "DiscovergySensorEntityDescription list"
  electricity_sensors :: "DiscovergySensorEntityDescription list"
  heap :: "ref \<Rightarrow> DataUpdateCoordinator"
  allocated :: nat
  coordinators :: "string \<rightharpoonup> ref"
  trace :: "event list"

section \<open>The operations\<close>

subsection \<open>The coordinator factory\<close>

text \<open>
  \<^verbatim>\<open>async_update_data\<close>: the closure over \<^verbatim>\<open>discovergy_instance\<close> and
  \<^verbatim>\<open>meter\<close>. The three \<^verbatim>\<open>except\<close> clauses are tried in the order of the source.
\<close>

definition async_update_data :: "Discovergy \<Rightarrow> Meter \<Rightarrow> unit \<Rightarrow> exn + Reading" where
  "async_update_data discovergy_instance meter u =
     (case get_last_reading discovergy_instance (get_meter_id meter) of
        Inr reading \<Rightarrow> Inr reading
      | Inl AccessTokenExpired \<Rightarrow>
          Inl (ConfigEntryAuthFailed ''Got token expired while communicating with API'')
      | Inl (HTTPError err) \<Rightarrow>
          Inl (UpdateFailed (''Error communicating with API: '' @ err))
      | Inl (OtherException err) \<Rightarrow>
          Inl (UpdateFailed (''Unexpected error while communicating with API: '' @ err)))"

text \<open>
  \<^verbatim>\<open>get_coordinator_for_meter\<close> constructs a coordinator and returns a reference
  to it. The host's constructor is not in this file: the new object has the four
  attributes the call passes, and no entry and no data yet.
\<close>

definition get_coordinator_for_meter ::
  "state \<Rightarrow> Meter \<Rightarrow> Discovergy \<Rightarrow> int \<Rightarrow> ref \<times> state" where
  "get_coordinator_for_meter s meter discovergy_instance interval =
     (let r = allocated s in
      (r, s \<lparr> heap := (heap s)
                (r := \<lparr> coordinator_name = ''sensor'',
                        update_method = async_update_data discovergy_instance meter,
                        update_interval = interval,
                        config_entry = None,
                        coordinator_data = None \<rparr>),
              allocated := Suc r,
              trace := trace s @ [CoordinatorCreated r] \<rparr>))"

text \<open>
  Modelled from the spec: \<^verbatim>\<open>DataUpdateCoordinator.async_config_entry_first_refresh\<close>,
  a method of the host platform that is not in this file. The coordinator "owns the
  polling lifecycle and the most recently fetched Reading", the setup fetches
  "initial data so we have data when entities are added", and failures are delegated
  "to the host platform's standard recovery paths": the method calls the update
  method once; a Reading becomes the coordinator's data, an exception leaves the
  coordinator as it is and is raised to the caller.
\<close>

definition async_config_entry_first_refresh :: "state \<Rightarrow> ref \<Rightarrow> state \<times> (exn + unit)" where
  "async_config_entry_first_refresh s r =
     (let s' = s \<lparr> trace := trace s @ [FirstRefresh r] \<rparr> in
      case update_method (heap s' r) () of
        Inl err \<Rightarrow> (s', Inl err)
      | Inr reading \<Rightarrow>
          (s' \<lparr> heap := (heap s') (r := (heap s' r) \<lparr> coordinator_data := Some reading \<rparr>) \<rparr>,
           Inr ()))"

subsection \<open>The entity\<close>

text \<open>\<^verbatim>\<open>str.capitalize\<close> on ASCII letters; other characters are left as they are.\<close>

definition ascii_upper :: "char \<Rightarrow> char" where
  "ascii_upper c =
     (let n = (of_char c :: nat) in if 97 \<le> n \<and> n \<le> 122 then char_of (n - 32) else c)"

definition ascii_lower :: "char \<Rightarrow> char" where
  "ascii_lower c =
     (let n = (of_char c :: nat) in if 65 \<le> n \<and> n \<le> 90 then char_of (n + 32) else c)"

fun capitalize :: "string \<Rightarrow> string" where
  "capitalize [] = []"
| "capitalize (c # cs) = ascii_upper c # map ascii_lower cs"

text \<open>\<^verbatim>\<open>DiscovergySensor.__init__\<close>.\<close>

definition DiscovergySensor_init ::
  "const \<Rightarrow> string \<Rightarrow> DiscovergySensorEntityDescription \<Rightarrow> Meter \<Rightarrow> ref \<Rightarrow> DiscovergySensor" where
  "DiscovergySensor_init c dk descr meter coord =
     \<lparr> coordinator = coord,
       data_key = dk,
       entity_description = descr,
       attr_unique_id = full_serial_number meter @ ''-'' @ key descr,
       attr_device_info =
         \<lparr> ATTR_IDENTIFIERS = {(DOMAIN c, get_meter_id meter)},
           ATTR_NAME = capitalize (measurement_type meter) @ '' '' @ street (location meter)
                         @ '' '' @ street_number (location meter),
           ATTR_MODEL = meter_type meter @ '' '' @ full_serial_number meter,
           ATTR_MANUFACTURER = MANUFACTURER c \<rparr> \<rparr>"

subsection \<open>Python's true division\<close>

text \<open>\<^verbatim>\<open>int.bit_length\<close>: the number of binary digits of a positive integer.\<close>

function bit_length :: "int \<Rightarrow> int" where
  "bit_length n = (if n \<le> 0 then 0 else 1 + bit_length (n div 2))"
  by pat_completeness auto
termination
  by (relation "measure nat") auto

declare bit_length.simps [simp del]

text \<open>The power of two with an integer exponent.\<close>

definition pow2 :: "int \<Rightarrow> rat" where
  "pow2 e = (if 0 \<le> e then 2 ^ nat e else 1 / 2 ^ nat (- e))"

text \<open>
  For a positive rational \<open>q\<close>, the exponent \<open>e\<close> with \<open>2\<^sup>e \<le> q < 2\<^sup>e\<^sup>+\<^sup>1\<close>:
  the difference of the bit lengths of numerator and denominator, or one less.
\<close>

definition floor_log2 :: "rat \<Rightarrow> int" where
  "floor_log2 q =
     (let (n, d) = quotient_of q;
          k = bit_length n - bit_length d
      in if pow2 k \<le> q then k else k - 1)"

text \<open>Rounding to the nearest integer, a tie to the even one.\<close>

definition round_half_even :: "rat \<Rightarrow> int" where
  "round_half_even q =
     (let f = \<lfloor>q\<rfloor>; r = q - of_int f
      in if r < 1 / 2 then f else if 1 / 2 < r then f + 1 else if even f then f else f + 1)"

text \<open>
  The binary64 value nearest to \<open>q\<close>, ties to even: 53 significant bits, and below
  \<open>2\<^sup>-\<^sup>1\<^sup>0\<^sup>2\<^sup>2\<close> the fixed spacing \<open>2\<^sup>-\<^sup>1\<^sup>0\<^sup>7\<^sup>4\<close> of the subnormal numbers. The exponent
  is not bounded above here: a result of magnitude \<open>2\<^sup>1\<^sup>0\<^sup>2\<^sup>4\<close> or more is not a
  float, and the callers below test for it.
\<close>

definition nearest_double :: "rat \<Rightarrow> rat" where
  "nearest_double q =
     (if q = 0 then 0
      else let e = floor_log2 \<bar>q\<bar>; t = max e (- 1022) - 52
           in of_int (round_half_even (q / pow2 t)) * pow2 t)"

text \<open>
  The conversion of an \<^verbatim>\<open>int\<close> to a \<^verbatim>\<open>float\<close>: correctly rounded, and
  \<^verbatim>\<open>OverflowError\<close> when the integer is too large.
\<close>

definition float_of_int :: "int \<Rightarrow> exn + rat" where
  "float_of_int b =
     (let f = nearest_double (of_int b)
      in if pow2 1024 \<le> \<bar>f\<bar> then Inl OverflowError else Inr f)"

text \<open>
  The operator \<^verbatim>\<open>/\<close> with an \<^verbatim>\<open>int\<close> on the right, as \<^verbatim>\<open>native_value\<close> uses it.
  \<^item> \<^verbatim>\<open>int / int\<close>: \<^verbatim>\<open>ZeroDivisionError\<close> for the divisor 0; otherwise the float
    nearest to the exact quotient, and \<^verbatim>\<open>OverflowError\<close> when that is too large.
  \<^item> \<^verbatim>\<open>float / int\<close>: the divisor is converted to a float first (which may raise
    \<^verbatim>\<open>OverflowError\<close>), a divisor of 0 raises \<^verbatim>\<open>ZeroDivisionError\<close>, and the
    result is the float nearest to the quotient of the two floats. The quotient of a
    float by the float of a nonzero integer is not larger than the float, so it does
    not overflow.
\<close>

definition truediv :: "number \<Rightarrow> int \<Rightarrow> exn + rat" where
  "truediv a b =
     (case a of
        PyInt n \<Rightarrow>
          if b = 0 then Inl ZeroDivisionError
          else (let f = nearest_double (of_int n / of_int b)
                in if pow2 1024 \<le> \<bar>f\<bar> then Inl OverflowError else Inr f)
      | PyFloat x \<Rightarrow>
          (case float_of_int b of
             Inl err \<Rightarrow> Inl err
           | Inr y \<Rightarrow>
               if y = 0 then Inl ZeroDivisionError
               else Inr (nearest_double (x / y))))"

subsection \<open>The value of the entity\<close>

text \<open>
  \<^verbatim>\<open>native_value\<close>. The subscript is evaluated before the division: a coordinator
  without data gives \<^verbatim>\<open>AttributeError\<close>, a missing key \<^verbatim>\<open>KeyError\<close>; then the
  raw value is divided by the scale. The quotient is a float already, and
  \<^verbatim>\<open>float\<close> returns it as it is.
\<close>

definition native_value :: "state \<Rightarrow> DiscovergySensor \<Rightarrow> exn + rat" where
  "native_value s self =
     (case coordinator_data (heap s (coordinator self)) of
        None \<Rightarrow> Inl AttributeError
      | Some reading \<Rightarrow>
          (case reading_values reading (data_key self) of
             None \<Rightarrow> Inl (KeyError (data_key self))
           | Some raw \<Rightarrow> truediv raw (scale (entity_description self))))"

subsection \<open>The setup\<close>

text \<open>
  The innermost loop, \<^verbatim>\<open>for key in keys\<close>. Each iteration reads
  \<^verbatim>\<open>coordinator.data.values\<close> again; there is no \<^verbatim>\<open>break\<close>.
\<close>

fun add_for_keys ::
  "const \<Rightarrow> string list \<Rightarrow> DiscovergySensorEntityDescription \<Rightarrow> Meter \<Rightarrow> ref
     \<Rightarrow> state \<times> DiscovergySensor list \<Rightarrow> state \<times> (exn + DiscovergySensor list)" where
  "add_for_keys c [] descr meter coord (s, entities) = (s, Inr entities)"
| "add_for_keys c (k # keys) descr meter coord (s, entities) =
     (case coordinator_data (heap s coord) of
        None \<Rightarrow> (s, Inl AttributeError)
      | Some reading \<Rightarrow>
          if k \<in> dom (reading_values reading)
          then (let e = DiscovergySensor_init c k descr meter coord in
                add_for_keys c keys descr meter coord
                  (s \<lparr> trace := trace s @ [EntityBuilt e] \<rparr>, entities @ [e]))
          else add_for_keys c keys descr meter coord (s, entities))"

text \<open>The middle loop, \<^verbatim>\<open>for description in sensors\<close>.\<close>

fun add_for_descriptions ::
  "const \<Rightarrow> DiscovergySensorEntityDescription list \<Rightarrow> Meter \<Rightarrow> ref
     \<Rightarrow> state \<times> DiscovergySensor list \<Rightarrow> state \<times> (exn + DiscovergySensor list)" where
  "add_for_descriptions c [] meter coord (s, entities) = (s, Inr entities)"
| "add_for_descriptions c (descr # sensors) meter coord (s, entities) =
     (let keys = [key descr] @ alternative_keys descr in
      case add_for_keys c keys descr meter coord (s, entities) of
        (s', Inl err) \<Rightarrow> (s', Inl err)
      | (s', Inr entities') \<Rightarrow> add_for_descriptions c sensors meter coord (s', entities'))"

text \<open>The body of the outer loop, for one meter.\<close>

definition setup_meter ::
  "const \<Rightarrow> Discovergy \<Rightarrow> ConfigEntry \<Rightarrow> int \<Rightarrow> Meter
     \<Rightarrow> state \<times> DiscovergySensor list \<Rightarrow> state \<times> (exn + DiscovergySensor list)" where
  "setup_meter c discovergy_instance entry min_time_between_updates meter =
     (\<lambda>(s, entities).
        let (coord, s1) =
              get_coordinator_for_meter s meter discovergy_instance min_time_between_updates;
            s2 = s1 \<lparr> heap := (heap s1) (coord := (heap s1 coord) \<lparr> config_entry := Some entry \<rparr>) \<rparr>
        in case async_config_entry_first_refresh s2 coord of
             (s3, Inl err) \<Rightarrow> (s3, Inl err)
           | (s3, Inr u) \<Rightarrow>
               let s4 = s3 \<lparr> coordinators := (coordinators s3) (get_meter_id meter \<mapsto> coord),
                             trace := trace s3 @ [CoordinatorStored (get_meter_id meter) coord] \<rparr>;
                   sensors = (if measurement_type meter = ''ELECTRICITY''
                              then Some (electricity_sensors s4)
                              else if measurement_type meter = ''GAS''
                              then Some (gas_sensors s4)
                              else None)
               in (case sensors of
                     None \<Rightarrow> (s4, Inr entities)
                   | Some ds \<Rightarrow> add_for_descriptions c ds meter coord (s4, entities)))"

text \<open>The outer loop, \<^verbatim>\<open>for meter in meters\<close>: an exception ends it.\<close>

fun setup_meters ::
  "const \<Rightarrow> Discovergy \<Rightarrow> ConfigEntry \<Rightarrow> int \<Rightarrow> Meter list
     \<Rightarrow> state \<times> DiscovergySensor list \<Rightarrow> state \<times> (exn + DiscovergySensor list)" where
  "setup_meters c discovergy_instance entry interval [] (s, entities) = (s, Inr entities)"
| "setup_meters c discovergy_instance entry interval (meter # ms) (s, entities) =
     (case setup_meter c discovergy_instance entry interval meter (s, entities) of
        (s', Inl err) \<Rightarrow> (s', Inl err)
      | (s', Inr entities') \<Rightarrow> setup_meters c discovergy_instance entry interval ms (s', entities'))"

text \<open>
  \<^verbatim>\<open>async_setup_entry\<close>. The argument \<open>data\<close> is
  \<^verbatim>\<open>hass.data[DOMAIN][entry.entry_id]\<close>. The result is the state the call leaves
  behind and either the exception it raises or the list it passes to
  \<^verbatim>\<open>async_add_entities\<close>.
\<close>

definition async_setup_entry ::
  "const \<Rightarrow> state \<Rightarrow> DiscovergyData \<Rightarrow> ConfigEntry \<Rightarrow> state \<times> (exn + DiscovergySensor list)" where
  "async_setup_entry c s data entry =
     (let discovergy_instance = api_client data;
          ms = meters data;
          min_time_between_updates =
            (case options entry (CONF_TIME_BETWEEN_UPDATE c) of
               Some v \<Rightarrow> v
             | None \<Rightarrow> DEFAULT_TIME_BETWEEN_UPDATE c)
      in setup_meters c discovergy_instance entry min_time_between_updates ms (s, []))"

section \<open>Derived descriptions of the loops\<close>

text \<open>
  The definitions of this section are not part of the program: they name what the
  loops compute, for the lemmas below.
\<close>

text \<open>The entities the loop over the keys of one description appends.\<close>

definition entities_for_description ::
  "const \<Rightarrow> Reading \<Rightarrow> DiscovergySensorEntityDescription \<Rightarrow> Meter \<Rightarrow> ref \<Rightarrow> DiscovergySensor list" where
  "entities_for_description c rd d m r =
     map (\<lambda>k. DiscovergySensor_init c k d m r)
       (filter (\<lambda>k. k \<in> dom (reading_values rd)) (key d # alternative_keys d))"

text \<open>The entities the loop over the descriptions of one meter appends.\<close>

definition entities_for_meter ::
  "const \<Rightarrow> Reading \<Rightarrow> DiscovergySensorEntityDescription list \<Rightarrow> Meter \<Rightarrow> ref
     \<Rightarrow> DiscovergySensor list" where
  "entities_for_meter c rd ds m r = concat (map (\<lambda>d. entities_for_description c rd d m r) ds)"

text \<open>The table the setup iterates for a meter; none is an empty iteration.\<close>

definition sensors_for :: "state \<Rightarrow> Meter \<Rightarrow> DiscovergySensorEntityDescription list" where
  "sensors_for s m =
     (if measurement_type m = ''ELECTRICITY'' then electricity_sensors s
      else if measurement_type m = ''GAS'' then gas_sensors s else [])"

text \<open>The coordinator of a meter once the setup has set its entry and its data.\<close>

definition refreshed ::
  "Discovergy \<Rightarrow> Meter \<Rightarrow> int \<Rightarrow> ConfigEntry \<Rightarrow> Reading option \<Rightarrow> DataUpdateCoordinator" where
  "refreshed api m iv entry rdo =
     \<lparr> coordinator_name = ''sensor'', update_method = async_update_data api m,
       update_interval = iv, config_entry = Some entry, coordinator_data = rdo \<rparr>"

text \<open>The vendor answers the fetch of every meter of the list with a Reading.\<close>

definition all_ok :: "Discovergy \<Rightarrow> (Meter \<Rightarrow> Reading) \<Rightarrow> Meter list \<Rightarrow> bool" where
  "all_ok api rd ms = (\<forall>m \<in> set ms. get_last_reading api (get_meter_id m) = Inr (rd m))"

text \<open>The update interval the setup computes from the options of the entry.\<close>

definition interval_of :: "const \<Rightarrow> ConfigEntry \<Rightarrow> int" where
  "interval_of c entry =
     (case options entry (CONF_TIME_BETWEEN_UPDATE c) of
        Some v \<Rightarrow> v
      | None \<Rightarrow> DEFAULT_TIME_BETWEEN_UPDATE c)"

section \<open>An installation with three meters\<close>

definition example_const :: const where
  "example_const =
     \<lparr> CONF_TIME_BETWEEN_UPDATE = ''time_between_update'', DEFAULT_TIME_BETWEEN_UPDATE = 30,
       DOMAIN = ''discovergy'', MANUFACTURER = ''Discovergy'' \<rparr>"

definition example_entry :: ConfigEntry where
  "example_entry = \<lparr> entry_id = ''entry1'', options = Map.empty \<rparr>"

definition electricity_meter :: Meter where
  "electricity_meter =
     \<lparr> get_meter_id = ''EASYMETER_1'', full_serial_number = ''1ESY1'',
       measurement_type = ''ELECTRICITY'', meter_type = ''EASYMETER'',
       location = \<lparr> street = ''Main'', street_number = ''1'' \<rparr> \<rparr>"

definition gas_meter :: Meter where
  "gas_meter =
     \<lparr> get_meter_id = ''GAS_2'', full_serial_number = ''2GAS2'',
       measurement_type = ''GAS'', meter_type = ''GAS'',
       location = \<lparr> street = ''Main'', street_number = ''1'' \<rparr> \<rparr>"

definition heat_meter :: Meter where
  "heat_meter =
     \<lparr> get_meter_id = ''HEAT_3'', full_serial_number = ''3HEAT3'',
       measurement_type = ''HEAT'', meter_type = ''HEAT'',
       location = \<lparr> street = ''Main'', street_number = ''1'' \<rparr> \<rparr>"

text \<open>The electricity meter reports phase 1 under both of its names.\<close>

definition electricity_reading :: Reading where
  "electricity_reading =
     \<lparr> reading_time = 1700000000,
       reading_values = [''power'' \<mapsto> PyInt 1500, ''power1'' \<mapsto> PyInt 500,
                         ''phase1Power'' \<mapsto> PyInt 500, ''energy'' \<mapsto> PyInt 25000000000] \<rparr>"

definition gas_reading :: Reading where
  "gas_reading = \<lparr> reading_time = 1700000000, reading_values = [''volume'' \<mapsto> PyInt 12345] \<rparr>"

definition heat_reading :: Reading where
  "heat_reading = \<lparr> reading_time = 1700000000, reading_values = [''power'' \<mapsto> PyFloat 7] \<rparr>"

definition example_reading :: "Meter \<Rightarrow> Reading" where
  "example_reading m =
     (if get_meter_id m = ''EASYMETER_1'' then electricity_reading
      else if get_meter_id m = ''GAS_2'' then gas_reading
      else heat_reading)"

definition example_api :: Discovergy where
  "example_api =
     \<lparr> get_last_reading = (\<lambda>mid.
         if mid = ''EASYMETER_1'' then Inr electricity_reading
         else if mid = ''GAS_2'' then Inr gas_reading
         else if mid = ''HEAT_3'' then Inr heat_reading
         else Inl (HTTPError ''404'')) \<rparr>"

definition example_data :: DiscovergyData where
  "example_data =
     \<lparr> api_client = example_api, meters = [electricity_meter, gas_meter, heat_meter] \<rparr>"

text \<open>The state after the module is loaded: no coordinator yet.\<close>

definition blank :: DataUpdateCoordinator where
  "blank =
     \<lparr> coordinator_name = [], update_method = (\<lambda>u. Inl AttributeError), update_interval = 0,
       config_entry = None, coordinator_data = None \<rparr>"

definition module_loaded :: state where
  "module_loaded =
     \<lparr> gas_sensors = GAS_SENSORS, electricity_sensors = ELECTRICITY_SENSORS,
       heap = (\<lambda>r. blank), allocated = 0, coordinators = Map.empty, trace = [] \<rparr>"

text \<open>
  A state in which the coordinator at address 0 holds the electricity reading and the
  coordinator at address 1 the gas reading.
\<close>

definition polled_state :: state where
  "polled_state =
     module_loaded
       \<lparr> heap := (heap module_loaded)
            (0 := refreshed example_api electricity_meter 30 example_entry (Some electricity_reading),
             1 := refreshed example_api gas_meter 30 example_entry (Some gas_reading)),
         allocated := 2 \<rparr>"

definition energy_sensor :: DiscovergySensor where
  "energy_sensor =
     DiscovergySensor_init example_const ''energy'' (ELECTRICITY_SENSORS ! 7) electricity_meter 0"

definition volume_sensor :: DiscovergySensor where
  "volume_sensor =
     DiscovergySensor_init example_const ''volume'' (GAS_SENSORS ! 0) gas_meter 1"

text \<open>An electricity meter whose Reading names phase 1 twice and nothing else.\<close>

definition both_names_reading :: Reading where
  "both_names_reading =
     \<lparr> reading_time = 1700000000,
       reading_values = [''power1'' \<mapsto> PyInt 500, ''phase1Power'' \<mapsto> PyInt 500] \<rparr>"

definition both_names_data :: DiscovergyData where
  "both_names_data =
     \<lparr> api_client = \<lparr> get_last_reading = (\<lambda>mid. Inr both_names_reading) \<rparr>,
       meters = [electricity_meter] \<rparr>"

text \<open>A vendor client whose every fetch raises the given exception.\<close>

definition failing_api :: "vendor_exn \<Rightarrow> Discovergy" where
  "failing_api err = \<lparr> get_last_reading = (\<lambda>mid. Inl err) \<rparr>"

section \<open>What the loops compute\<close>

lemmas example_defs =
  example_const_def example_entry_def example_data_def example_api_def example_reading_def
  electricity_meter_def gas_meter_def heat_meter_def electricity_reading_def gas_reading_def
  heat_reading_def module_loaded_def blank_def

lemmas source_defs =
  async_setup_entry_def setup_meter_def get_coordinator_for_meter_def
  async_config_entry_first_refresh_def async_update_data_def
  GAS_SENSORS_def ELECTRICITY_SENSORS_def description_def Let_def

lemma init_simps [simp]:
  "coordinator (DiscovergySensor_init c k d m r) = r"
  "data_key (DiscovergySensor_init c k d m r) = k"
  "entity_description (DiscovergySensor_init c k d m r) = d"
  "attr_unique_id (DiscovergySensor_init c k d m r) = full_serial_number m @ ''-'' @ key d"
  by (simp_all add: DiscovergySensor_init_def)

lemma add_for_keys_run:
  "coordinator_data (heap s r) = Some rd \<Longrightarrow>
   add_for_keys c ks d m r (s, es) =
     (s \<lparr> trace := trace s @ map EntityBuilt
            (map (\<lambda>k. DiscovergySensor_init c k d m r)
               (filter (\<lambda>k. k \<in> dom (reading_values rd)) ks)) \<rparr>,
      Inr (es @ map (\<lambda>k. DiscovergySensor_init c k d m r)
                  (filter (\<lambda>k. k \<in> dom (reading_values rd)) ks)))"
proof (induction ks arbitrary: s es)
  case Nil
  then show ?case by simp
next
  case (Cons k ks)
  then show ?case by (simp add: Let_def)
qed

lemma add_for_descriptions_run:
  "coordinator_data (heap s r) = Some rd \<Longrightarrow>
   add_for_descriptions c ds m r (s, es) =
     (s \<lparr> trace := trace s @ map EntityBuilt (entities_for_meter c rd ds m r) \<rparr>,
      Inr (es @ entities_for_meter c rd ds m r))"
proof (induction ds arbitrary: s es)
  case Nil
  then show ?case by (simp add: entities_for_meter_def)
next
  case (Cons d ds)
  then show ?case
    by (simp add: add_for_keys_run entities_for_meter_def entities_for_description_def)
qed

lemma async_update_data_Inr:
  "get_last_reading api (get_meter_id m) = Inr rd \<Longrightarrow> async_update_data api m u = Inr rd"
  by (simp add: async_update_data_def)

text \<open>One iteration of the outer loop when the fetch returns a Reading.\<close>

lemma setup_meter_ok:
  assumes "get_last_reading api (get_meter_id m) = Inr rd"
  shows "setup_meter c api entry iv m (s, es) =
     (s \<lparr> heap := (heap s) (allocated s := refreshed api m iv entry (Some rd)),
          allocated := Suc (allocated s),
          coordinators := (coordinators s) (get_meter_id m \<mapsto> allocated s),
          trace := trace s @ [CoordinatorCreated (allocated s), FirstRefresh (allocated s),
                              CoordinatorStored (get_meter_id m) (allocated s)]
                     @ map EntityBuilt (entities_for_meter c rd (sensors_for s m) m (allocated s)) \<rparr>,
      Inr (es @ entities_for_meter c rd (sensors_for s m) m (allocated s)))"
  using assms
  by (simp add: setup_meter_def get_coordinator_for_meter_def
      async_config_entry_first_refresh_def async_update_data_Inr Let_def
      add_for_descriptions_run [where rd = rd] sensors_for_def refreshed_def
      entities_for_meter_def)

text \<open>One iteration of the outer loop when the fetch raises.\<close>

lemma setup_meter_fail:
  assumes "get_last_reading api (get_meter_id m) = Inl err"
  shows "setup_meter c api entry iv m (s, es) =
     (s \<lparr> heap := (heap s) (allocated s := refreshed api m iv entry None),
          allocated := Suc (allocated s),
          trace := trace s @ [CoordinatorCreated (allocated s), FirstRefresh (allocated s)] \<rparr>,
      Inl (case err of
             AccessTokenExpired \<Rightarrow>
               ConfigEntryAuthFailed ''Got token expired while communicating with API''
           | HTTPError e \<Rightarrow> UpdateFailed (''Error communicating with API: '' @ e)
           | OtherException e \<Rightarrow>
               UpdateFailed (''Unexpected error while communicating with API: '' @ e)))"
  using assms
  by (cases err)
    (simp_all add: setup_meter_def get_coordinator_for_meter_def
      async_config_entry_first_refresh_def async_update_data_def Let_def refreshed_def)

lemma sensors_for_frame [simp]:
  "sensors_for (s \<lparr> heap := h, allocated := a, coordinators := cs, trace := t \<rparr>) m = sensors_for s m"
  "sensors_for (s \<lparr> heap := h, allocated := a, trace := t \<rparr>) m = sensors_for s m"
  by (simp_all add: sensors_for_def)

lemma upt_0_Suc_shift: "[0..<Suc n] = 0 # map Suc [0..<n]"
  by (simp add: upt_conv_Cons map_Suc_upt del: upt_Suc)

lemma all_ok_Cons [simp]:
  "all_ok api rd (m # ms) =
     (get_last_reading api (get_meter_id m) = Inr (rd m) \<and> all_ok api rd ms)"
  by (simp add: all_ok_def)

lemma async_setup_entry_loop:
  "async_setup_entry c s data entry =
     setup_meters c (api_client data) entry (interval_of c entry) (meters data) (s, [])"
  by (simp add: async_setup_entry_def interval_of_def)

subsection \<open>The outer loop when every fetch returns a Reading\<close>

lemma setup_meters_entities:
  "all_ok api rd ms \<Longrightarrow>
   snd (setup_meters c api entry iv ms (s, es)) =
     Inr (es @ concat (map (\<lambda>i. entities_for_meter c (rd (ms ! i)) (sensors_for s (ms ! i)) (ms ! i)
                                   (allocated s + i)) [0..<length ms]))"
proof (induction ms arbitrary: s es)
  case Nil
  then show ?case by simp
next
  case (Cons m ms)
  then show ?case
    by (simp add: setup_meter_ok [where rd = "rd m"] upt_0_Suc_shift o_def del: upt_Suc)
qed

lemma setup_meters_success:
  assumes "all_ok api rd ms"
  obtains s' entities where "setup_meters c api entry iv ms (s, es) = (s', Inr entities)"
  using setup_meters_entities [OF assms, of c entry iv s es]
  by (cases "setup_meters c api entry iv ms (s, es)") auto

lemma setup_meters_allocated:
  "all_ok api rd ms \<Longrightarrow>
   allocated (fst (setup_meters c api entry iv ms (s, es))) = allocated s + length ms"
proof (induction ms arbitrary: s es)
  case Nil
  then show ?case by simp
next
  case (Cons m ms)
  then show ?case
    by (simp add: setup_meter_ok [where rd = "rd m"])
qed

lemma setup_meters_trace:
  "all_ok api rd ms \<Longrightarrow>
   trace (fst (setup_meters c api entry iv ms (s, es))) =
     trace s @ concat (map (\<lambda>i. [CoordinatorCreated (allocated s + i), FirstRefresh (allocated s + i),
                                   CoordinatorStored (get_meter_id (ms ! i)) (allocated s + i)]
                                  @ map EntityBuilt
                                      (entities_for_meter c (rd (ms ! i)) (sensors_for s (ms ! i))
                                         (ms ! i) (allocated s + i))) [0..<length ms])"
proof (induction ms arbitrary: s es)
  case Nil
  then show ?case by simp
next
  case (Cons m ms)
  then show ?case
    by (simp add: setup_meter_ok [where rd = "rd m"] upt_0_Suc_shift o_def del: upt_Suc)
qed

subsection \<open>The store and the tables, whatever the fetches return\<close>

lemma setup_meters_heap_old:
  "r < allocated s \<Longrightarrow> heap (fst (setup_meters c api entry iv ms (s, es))) r = heap s r"
proof (induction ms arbitrary: s es)
  case Nil
  then show ?case by simp
next
  case (Cons m ms)
  show ?case
  proof (cases "get_last_reading api (get_meter_id m)")
    case (Inl err)
    with Cons.prems show ?thesis by (simp add: setup_meter_fail)
  next
    case (Inr x)
    with Cons.prems show ?thesis by (simp add: setup_meter_ok Cons.IH)
  qed
qed

lemma setup_meters_tables:
  "gas_sensors (fst (setup_meters c api entry iv ms (s, es))) = gas_sensors s \<and>
   electricity_sensors (fst (setup_meters c api entry iv ms (s, es))) = electricity_sensors s"
proof (induction ms arbitrary: s es)
  case Nil
  then show ?case by simp
next
  case (Cons m ms)
  show ?case
  proof (cases "get_last_reading api (get_meter_id m)")
    case (Inl err)
    then show ?thesis by (simp add: setup_meter_fail)
  next
    case (Inr x)
    then show ?thesis by (simp add: setup_meter_ok Cons.IH)
  qed
qed

lemma setup_meters_coordinators_other:
  "mid \<notin> get_meter_id ` set ms \<Longrightarrow>
   coordinators (fst (setup_meters c api entry iv ms (s, es))) mid = coordinators s mid"
proof (induction ms arbitrary: s es)
  case Nil
  then show ?case by simp
next
  case (Cons m ms)
  show ?case
  proof (cases "get_last_reading api (get_meter_id m)")
    case (Inl err)
    then show ?thesis by (simp add: setup_meter_fail)
  next
    case (Inr x)
    with Cons.prems show ?thesis by (auto simp add: setup_meter_ok Cons.IH)
  qed
qed

text \<open>A setup that returns has fetched a Reading for every meter.\<close>

lemma setup_meters_success_fetch:
  "snd (setup_meters c api entry iv ms (s, es)) = Inr es' \<Longrightarrow>
   all_ok api (\<lambda>m. projr (get_last_reading api (get_meter_id m))) ms"
proof (induction ms arbitrary: s es)
  case Nil
  then show ?case by (simp add: all_ok_def)
next
  case (Cons m ms)
  show ?case
  proof (cases "get_last_reading api (get_meter_id m)")
    case (Inl err)
    with Cons.prems show ?thesis by (simp add: setup_meter_fail)
  next
    case (Inr x)
    with Cons.prems Cons.IH show ?thesis by (simp add: setup_meter_ok)
  qed
qed

subsection \<open>The coordinator of each position of the list\<close>

lemma setup_meters_heap_new_sub:
  "all_ok api rd ms \<Longrightarrow> allocated s \<le> r \<Longrightarrow> r < allocated s + length ms \<Longrightarrow>
   heap (fst (setup_meters c api entry iv ms (s, es))) r =
     refreshed api (ms ! (r - allocated s)) iv entry (Some (rd (ms ! (r - allocated s))))"
proof (induction ms arbitrary: s es)
  case Nil
  then show ?case by simp
next
  case (Cons m ms)
  show ?case
  proof (cases "r = allocated s")
    case True
    with Cons.prems show ?thesis
      by (simp add: setup_meter_ok [where rd = "rd m"] setup_meters_heap_old)
  next
    case False
    with Cons.prems show ?thesis
      by (simp add: setup_meter_ok [where rd = "rd m"] Cons.IH nth_Cons')
  qed
qed

lemma setup_meters_heap_new:
  "all_ok api rd ms \<Longrightarrow> i < length ms \<Longrightarrow>
   heap (fst (setup_meters c api entry iv ms (s, es))) (allocated s + i) =
     refreshed api (ms ! i) iv entry (Some (rd (ms ! i)))"
  using setup_meters_heap_new_sub [of api rd ms s "allocated s + i" c entry iv es] by simp

lemma setup_meters_coordinators_new:
  "all_ok api rd ms \<Longrightarrow> i < length ms \<Longrightarrow>
   \<forall>j < length ms. i < j \<longrightarrow> get_meter_id (ms ! j) \<noteq> get_meter_id (ms ! i) \<Longrightarrow>
   coordinators (fst (setup_meters c api entry iv ms (s, es))) (get_meter_id (ms ! i)) =
     Some (allocated s + i)"
proof (induction ms arbitrary: s es i)
  case Nil
  then show ?case by simp
next
  case (Cons m ms)
  from Cons.prems(1) have fetch: "get_last_reading api (get_meter_id m) = Inr (rd m)"
    and rest: "all_ok api rd ms" by simp_all
  obtain S E where step: "setup_meter c api entry iv m (s, es) = (S, Inr E)"
    and alloc: "allocated S = Suc (allocated s)"
    and stored: "coordinators S (get_meter_id m) = Some (allocated s)"
    using setup_meter_ok [OF fetch, of c entry iv s es] by simp
  show ?case
  proof (cases i)
    case 0
    from Cons.prems(3) 0 have "get_meter_id m \<notin> get_meter_id ` set ms"
      by (fastforce simp add: in_set_conv_nth)
    with 0 step stored show ?thesis
      by (simp add: setup_meters_coordinators_other)
  next
    case (Suc q)
    with Cons.prems(2) have q: "q < length ms" by simp
    from Cons.prems(3) Suc
    have later: "\<forall>j < length ms. q < j \<longrightarrow> get_meter_id (ms ! j) \<noteq> get_meter_id (ms ! q)"
      by fastforce
    from Cons.IH [OF rest q later, of S E] Suc step alloc show ?thesis by simp
  qed
qed

subsection \<open>Where an entity of the result comes from\<close>

lemma entity_origin:
  assumes "e \<in> set (entities_for_meter c rd ds m r)"
  shows "\<exists>d \<in> set ds. \<exists>k \<in> set (key d # alternative_keys d).
           k \<in> dom (reading_values rd) \<and> e = DiscovergySensor_init c k d m r"
  using assms
  by (auto simp add: entities_for_meter_def entities_for_description_def simp del: filter.simps)

lemma setup_meters_entity_origin:
  assumes ok: "all_ok api rd ms"
    and run: "snd (setup_meters c api entry iv ms (s, [])) = Inr entities"
    and e: "e \<in> set entities"
  shows "\<exists>i < length ms. \<exists>d \<in> set (sensors_for s (ms ! i)). \<exists>k \<in> set (key d # alternative_keys d).
           k \<in> dom (reading_values (rd (ms ! i))) \<and>
           e = DiscovergySensor_init c k d (ms ! i) (allocated s + i)"
proof -
  from run setup_meters_entities [OF ok, of c entry iv s "[]"]
  have "entities = concat (map (\<lambda>i. entities_for_meter c (rd (ms ! i)) (sensors_for s (ms ! i)) (ms ! i)
                                   (allocated s + i)) [0..<length ms])"
    by simp
  with e obtain i where i: "i < length ms"
    and "e \<in> set (entities_for_meter c (rd (ms ! i)) (sensors_for s (ms ! i)) (ms ! i) (allocated s + i))"
    by auto
  with entity_origin show ?thesis by blast
qed

lemma sensors_for_cases:
  "d \<in> set (sensors_for s m) \<Longrightarrow>
     (measurement_type m = ''ELECTRICITY'' \<and> d \<in> set (electricity_sensors s)) \<or>
     (measurement_type m = ''GAS'' \<and> d \<in> set (gas_sensors s))"
  by (auto simp add: sensors_for_def split: if_splits)

lemma entity_complete:
  assumes "d \<in> set ds" and "k \<in> set (key d # alternative_keys d)"
    and "k \<in> dom (reading_values rd)"
  shows "DiscovergySensor_init c k d m r \<in> set (entities_for_meter c rd ds m r)"
  using assms
  by (auto simp add: entities_for_meter_def entities_for_description_def simp del: filter.simps)

lemma setup_meters_entity_complete:
  assumes ok: "all_ok api rd ms"
    and run: "snd (setup_meters c api entry iv ms (s, [])) = Inr entities"
    and i: "i < length ms"
    and d: "d \<in> set (sensors_for s (ms ! i))"
    and k: "k \<in> set (key d # alternative_keys d)" "k \<in> dom (reading_values (rd (ms ! i)))"
  shows "DiscovergySensor_init c k d (ms ! i) (allocated s + i) \<in> set entities"
proof -
  from run setup_meters_entities [OF ok, of c entry iv s "[]"]
  have "entities = concat (map (\<lambda>i. entities_for_meter c (rd (ms ! i)) (sensors_for s (ms ! i)) (ms ! i)
                                   (allocated s + i)) [0..<length ms])"
    by simp
  moreover from entity_complete [OF d k]
  have "DiscovergySensor_init c k d (ms ! i) (allocated s + i)
      \<in> set (entities_for_meter c (rd (ms ! i)) (sensors_for s (ms ! i)) (ms ! i) (allocated s + i))" .
  ultimately show ?thesis using i by auto
qed

subsection \<open>Rounding to a float\<close>

lemma round_half_even_error: "\<bar>of_int (round_half_even x) - x\<bar> \<le> 1 / 2"
proof -
  have "of_int \<lfloor>x\<rfloor> \<le> x" "x < of_int \<lfloor>x\<rfloor> + 1" by linarith+
  then show ?thesis by (auto simp add: round_half_even_def Let_def)
qed

lemma pow2_pos: "0 < pow2 e"
  by (simp add: pow2_def)

lemma pow2_pred: "pow2 (t - 1) = pow2 t / 2"
proof (cases "1 \<le> t")
  case True
  then have "nat t = Suc (nat (t - 1))" by simp
  with True show ?thesis by (simp add: pow2_def)
next
  case False
  then have "nat (- (t - 1)) = Suc (nat (- t))" by simp
  with False show ?thesis by (simp add: pow2_def)
qed

text \<open>The rounded value is within half a unit in the last place of the exact one.\<close>

lemma nearest_double_error:
  "\<bar>nearest_double q - q\<bar> \<le> pow2 (max (floor_log2 \<bar>q\<bar>) (- 1022) - 53)"
proof (cases "q = 0")
  case True
  with pow2_pos [of "max (floor_log2 \<bar>q\<bar>) (- 1022) - 53"] show ?thesis
    by (simp add: nearest_double_def)
next
  case False
  define t where "t = max (floor_log2 \<bar>q\<bar>) (- 1022) - 52"
  define p where "p = pow2 t"
  have p: "0 < p" by (simp add: p_def pow2_pos)
  from False have nd: "nearest_double q = of_int (round_half_even (q / p)) * p"
    by (simp add: nearest_double_def Let_def t_def p_def)
  have "\<bar>of_int (round_half_even (q / p)) * p - q\<bar> = \<bar>of_int (round_half_even (q / p)) - q / p\<bar> * p"
  proof -
    from p have "of_int (round_half_even (q / p)) * p - q = (of_int (round_half_even (q / p)) - q / p) * p"
      by (simp add: field_simps)
    with p show ?thesis by (simp add: abs_mult)
  qed
  also from p round_half_even_error [of "q / p"] have "\<dots> \<le> 1 / 2 * p"
    by (intro mult_right_mono) simp_all
  also have "1 / 2 * p = pow2 (t - 1)" by (simp add: p_def pow2_pred)
  also have "t - 1 = max (floor_log2 \<bar>q\<bar>) (- 1022) - 53" by (simp add: t_def)
  finally show ?thesis by (simp add: nd)
qed

lemma pow2_1024: "pow2 1024 = 2 ^ 1024"
  by (simp add: pow2_def)

text \<open>The two scales of the tables are floats.\<close>

lemma nearest_double_scales:
  "nearest_double 1000 = 1000"
  "nearest_double 10000000000 = 10000000000"
  by code_simp+

lemma float_of_int_scales:
  "float_of_int 1000 = Inr 1000"
  "float_of_int 10000000000 = Inr 10000000000"
  by (simp_all add: float_of_int_def nearest_double_scales pow2_1024)

text \<open>Two quotients of the example Readings: one that rounds and one that does not.\<close>

lemma nearest_double_volume:
  "nearest_double (2469 / 200) = 6949617174986097 / 562949953421312"
  by code_simp

lemma nearest_double_energy: "nearest_double (5 / 2) = 5 / 2"
  by code_simp

lemma truediv_volume: "truediv (PyInt 12345) 1000 = Inr (6949617174986097 / 562949953421312)"
  by (simp add: truediv_def nearest_double_volume pow2_1024)

lemma truediv_energy: "truediv (PyInt 25000000000) 10000000000 = Inr (5 / 2)"
  by (simp add: truediv_def nearest_double_energy pow2_1024)

subsection \<open>The installation with three meters\<close>

lemma example_fetches:
  "\<forall>m \<in> set (meters example_data).
     get_last_reading (api_client example_data) (get_meter_id m) = Inr (example_reading m)"
  by (simp add: example_defs)

lemma example_run:
  "snd (async_setup_entry example_const module_loaded example_data example_entry) =
     Inr [ DiscovergySensor_init example_const ''power'' (ELECTRICITY_SENSORS ! 0) electricity_meter 0,
           DiscovergySensor_init example_const ''power1'' (ELECTRICITY_SENSORS ! 1) electricity_meter 0,
           DiscovergySensor_init example_const ''phase1Power'' (ELECTRICITY_SENSORS ! 1) electricity_meter 0,
           DiscovergySensor_init example_const ''energy'' (ELECTRICITY_SENSORS ! 7) electricity_meter 0,
           DiscovergySensor_init example_const ''volume'' (GAS_SENSORS ! 0) gas_meter 1 ]"
  by (simp add: example_defs source_defs)

section \<open>Properties\<close>

subsection \<open>The value of a sensor\<close>

text \<open>
  C1. \<^verbatim>\<open>native_value\<close> of an entity is the raw value stored under the entity's
  \<open>data_key\<close> in the current Reading of its coordinator, divided by the scale of its
  description with Python's \<^verbatim>\<open>/\<close>, which gives a float. For a raw value that is an
  \<^verbatim>\<open>int\<close>, a returned value is the float nearest to the exact quotient, and differs
  from it by at most half a unit in the last place.
\<close>

theorem native_value_scaled:
  assumes "coordinator_data (heap s (coordinator self)) = Some reading"
    and "reading_values reading (data_key self) = Some raw"
  shows "native_value s self = truediv raw (scale (entity_description self)) \<and>
     (\<forall>n v. raw = PyInt n \<longrightarrow> native_value s self = Inr v \<longrightarrow>
        v = nearest_double (of_int n / of_int (scale (entity_description self))) \<and>
        \<bar>v - of_int n / of_int (scale (entity_description self))\<bar> \<le>
          pow2 (max (floor_log2 \<bar>of_int n / of_int (scale (entity_description self))\<bar>) (- 1022) - 53))"
proof -
  from assms have eq: "native_value s self = truediv raw (scale (entity_description self))"
    by (simp add: native_value_def)
  have "v = nearest_double (of_int n / of_int (scale (entity_description self))) \<and>
        \<bar>v - of_int n / of_int (scale (entity_description self))\<bar> \<le>
          pow2 (max (floor_log2 \<bar>of_int n / of_int (scale (entity_description self))\<bar>) (- 1022) - 53)"
    if "raw = PyInt n" "native_value s self = Inr v" for n v
  proof -
    from that eq have "v = nearest_double (of_int n / of_int (scale (entity_description self)))"
      by (simp add: truediv_def Let_def split: if_splits)
    with nearest_double_error [of "of_int n / of_int (scale (entity_description self))"]
    show ?thesis by blast
  qed
  with eq show ?thesis by blast
qed

theorem native_value_scaled_witness:
  "coordinator_data (heap polled_state (coordinator volume_sensor)) = Some gas_reading \<and>
   reading_values gas_reading (data_key volume_sensor) = Some (PyInt 12345) \<and>
   scale (entity_description volume_sensor) = 1000 \<and>
   native_value polled_state volume_sensor = truediv (PyInt 12345) 1000 \<and>
   native_value polled_state volume_sensor = Inr (6949617174986097 / 562949953421312)"
proof -
  have h1: "coordinator_data (heap polled_state (coordinator volume_sensor)) = Some gas_reading"
    by (simp add: polled_state_def volume_sensor_def refreshed_def module_loaded_def)
  have h2: "reading_values gas_reading (data_key volume_sensor) = Some (PyInt 12345)"
    by (simp add: volume_sensor_def gas_reading_def)
  have h3: "scale (entity_description volume_sensor) = 1000"
    by (simp add: volume_sensor_def GAS_SENSORS_def description_def)
  from native_value_scaled [OF h1 h2] h3
  have v: "native_value polled_state volume_sensor = truediv (PyInt 12345) 1000" by simp
  with truediv_volume h1 h2 h3 show ?thesis by simp
qed

subsection \<open>Which entities the setup creates\<close>

text \<open>
  C2. When the first fetch of every meter returns a Reading, the setup returns, and
  every entity it created belongs to one meter of the list (it refers to the
  coordinator of that meter, which holds the meter's first Reading), has as data key
  the key or an alternative key of its description, and that key is present in the
  values of that Reading. A description none of whose keys is present gets no entity
  for that meter; the setup returns all the same.
\<close>

theorem entity_only_for_present_key:
  assumes ok: "\<forall>m \<in> set (meters data). get_last_reading (api_client data) (get_meter_id m) = Inr (rd m)"
  shows "\<exists>s' entities. async_setup_entry c s data entry = (s', Inr entities) \<and>
     (\<forall>e \<in> set entities. \<exists>i < length (meters data).
         coordinator e = allocated s + i \<and>
         coordinator_data (heap s' (coordinator e)) = Some (rd (meters data ! i)) \<and>
         data_key e \<in> set (key (entity_description e) # alternative_keys (entity_description e)) \<and>
         data_key e \<in> dom (reading_values (rd (meters data ! i)))) \<and>
     (\<forall>i < length (meters data). \<forall>d.
         (\<forall>k \<in> set (key d # alternative_keys d). k \<notin> dom (reading_values (rd (meters data ! i)))) \<longrightarrow>
         (\<forall>e \<in> set entities. coordinator e = allocated s + i \<longrightarrow> entity_description e \<noteq> d))"
proof -
  let ?ms = "meters data" and ?api = "api_client data" and ?iv = "interval_of c entry"
  from ok have ok': "all_ok ?api rd ?ms" by (simp add: all_ok_def)
  obtain s' entities where run: "setup_meters c ?api entry ?iv ?ms (s, []) = (s', Inr entities)"
    using setup_meters_success [OF ok'] by blast
  have origin: "\<exists>i < length ?ms. \<exists>d \<in> set (sensors_for s (?ms ! i)). \<exists>k \<in> set (key d # alternative_keys d).
           k \<in> dom (reading_values (rd (?ms ! i))) \<and>
           e = DiscovergySensor_init c k d (?ms ! i) (allocated s + i)" if "e \<in> set entities" for e
    using setup_meters_entity_origin [OF ok', of c entry ?iv s entities e] run that by simp
  have heap: "coordinator_data (heap s' (allocated s + i)) = Some (rd (?ms ! i))" if "i < length ?ms" for i
    using setup_meters_heap_new [OF ok' that, of c entry ?iv s "[]"] run by (simp add: refreshed_def)
  have first: "\<exists>i < length ?ms.
         coordinator e = allocated s + i \<and>
         coordinator_data (heap s' (coordinator e)) = Some (rd (?ms ! i)) \<and>
         data_key e \<in> set (key (entity_description e) # alternative_keys (entity_description e)) \<and>
         data_key e \<in> dom (reading_values (rd (?ms ! i)))" if "e \<in> set entities" for e
  proof -
    from origin [OF that] obtain i d k where i: "i < length ?ms"
      and k: "k \<in> set (key d # alternative_keys d)" "k \<in> dom (reading_values (rd (?ms ! i)))"
      and e: "e = DiscovergySensor_init c k d (?ms ! i) (allocated s + i)" by blast
    from i k e heap [OF i] show ?thesis by (intro exI [of _ i]) simp
  qed
  have second: "entity_description e \<noteq> d"
    if "i < length ?ms"
      "\<forall>k \<in> set (key d # alternative_keys d). k \<notin> dom (reading_values (rd (?ms ! i)))"
      "e \<in> set entities" "coordinator e = allocated s + i" for i d e
  proof
    assume d: "entity_description e = d"
    from first [OF that(3)] obtain j where "coordinator e = allocated s + j"
      "data_key e \<in> set (key (entity_description e) # alternative_keys (entity_description e))"
      "data_key e \<in> dom (reading_values (rd (?ms ! j)))" by blast
    with that(2,4) d show False by auto
  qed
  from run first second show ?thesis
    by (simp add: async_setup_entry_loop)
qed

theorem entity_only_for_present_key_witness:
  "get_last_reading (api_client example_data) (get_meter_id electricity_meter) = Inr electricity_reading \<and>
   get_last_reading (api_client example_data) (get_meter_id gas_meter) = Inr gas_reading \<and>
   get_last_reading (api_client example_data) (get_meter_id heat_meter) = Inr heat_reading \<and>
   (\<exists>s' entities.
      async_setup_entry example_const module_loaded example_data example_entry = (s', Inr entities) \<and>
      length entities = 5 \<and>
      (\<forall>e \<in> set entities. \<exists>i < length (meters example_data).
          coordinator e = allocated module_loaded + i \<and>
          coordinator_data (heap s' (coordinator e)) = Some (example_reading (meters example_data ! i)) \<and>
          data_key e \<in> set (key (entity_description e) # alternative_keys (entity_description e)) \<and>
          data_key e \<in> dom (reading_values (example_reading (meters example_data ! i)))) \<and>
      (\<forall>i < length (meters example_data). \<forall>d.
          (\<forall>k \<in> set (key d # alternative_keys d).
              k \<notin> dom (reading_values (example_reading (meters example_data ! i)))) \<longrightarrow>
          (\<forall>e \<in> set entities. coordinator e = allocated module_loaded + i \<longrightarrow>
              entity_description e \<noteq> d)))"
proof -
  from entity_only_for_present_key [OF example_fetches, of example_const module_loaded example_entry]
  obtain s' entities where
    run: "async_setup_entry example_const module_loaded example_data example_entry = (s', Inr entities)"
    and rest:
      "\<forall>e \<in> set entities. \<exists>i < length (meters example_data).
          coordinator e = allocated module_loaded + i \<and>
          coordinator_data (heap s' (coordinator e)) = Some (example_reading (meters example_data ! i)) \<and>
          data_key e \<in> set (key (entity_description e) # alternative_keys (entity_description e)) \<and>
          data_key e \<in> dom (reading_values (example_reading (meters example_data ! i)))"
      "\<forall>i < length (meters example_data). \<forall>d.
          (\<forall>k \<in> set (key d # alternative_keys d).
              k \<notin> dom (reading_values (example_reading (meters example_data ! i)))) \<longrightarrow>
          (\<forall>e \<in> set entities. coordinator e = allocated module_loaded + i \<longrightarrow>
              entity_description e \<noteq> d)"
    by blast
  from run example_run have "length entities = 5" by simp
  with run rest have "\<exists>s' entities.
      async_setup_entry example_const module_loaded example_data example_entry = (s', Inr entities) \<and>
      length entities = 5 \<and>
      (\<forall>e \<in> set entities. \<exists>i < length (meters example_data).
          coordinator e = allocated module_loaded + i \<and>
          coordinator_data (heap s' (coordinator e)) = Some (example_reading (meters example_data ! i)) \<and>
          data_key e \<in> set (key (entity_description e) # alternative_keys (entity_description e)) \<and>
          data_key e \<in> dom (reading_values (example_reading (meters example_data ! i)))) \<and>
      (\<forall>i < length (meters example_data). \<forall>d.
          (\<forall>k \<in> set (key d # alternative_keys d).
              k \<notin> dom (reading_values (example_reading (meters example_data ! i)))) \<longrightarrow>
          (\<forall>e \<in> set entities. coordinator e = allocated module_loaded + i \<longrightarrow>
              entity_description e \<noteq> d))"
    by blast
  moreover have
    "get_last_reading (api_client example_data) (get_meter_id electricity_meter) = Inr electricity_reading"
    "get_last_reading (api_client example_data) (get_meter_id gas_meter) = Inr gas_reading"
    "get_last_reading (api_client example_data) (get_meter_id heat_meter) = Inr heat_reading"
    by (simp_all add: example_defs)
  ultimately show ?thesis by blast
qed

text \<open>
  C3. At most one entity per meter and description: this fails. The loop over the
  keys of a description has no \<^verbatim>\<open>break\<close>, so a Reading that holds the key and an
  alternative key of one description gives two entities of that description for the
  same meter, with the same unique id. Here the Reading of an electricity meter holds
  \<^verbatim>\<open>power1\<close> and \<^verbatim>\<open>phase1Power\<close>.
\<close>

theorem two_entities_for_one_description:
  "snd (async_setup_entry example_const module_loaded both_names_data example_entry) =
     Inr [ DiscovergySensor_init example_const ''power1'' (ELECTRICITY_SENSORS ! 1) electricity_meter 0,
           DiscovergySensor_init example_const ''phase1Power'' (ELECTRICITY_SENSORS ! 1) electricity_meter 0 ] \<and>
   attr_unique_id
     (DiscovergySensor_init example_const ''power1'' (ELECTRICITY_SENSORS ! 1) electricity_meter 0) =
     ''1ESY1-power1'' \<and>
   attr_unique_id
     (DiscovergySensor_init example_const ''phase1Power'' (ELECTRICITY_SENSORS ! 1) electricity_meter 0) =
     ''1ESY1-power1''"
  by (simp add: both_names_data_def both_names_reading_def example_defs source_defs)

subsection \<open>The update function of a coordinator\<close>

text \<open>
  C4. \<^verbatim>\<open>async_update_data\<close> returns the fetched Reading unchanged; it raises
  \<^verbatim>\<open>ConfigEntryAuthFailed\<close> when the fetch raises \<^verbatim>\<open>AccessTokenExpired\<close>, and
  \<^verbatim>\<open>UpdateFailed\<close> when it raises \<^verbatim>\<open>HTTPError\<close> or any other exception; it
  raises nothing else.
\<close>

theorem update_failures_two_channels:
  "(\<forall>reading. get_last_reading api (get_meter_id m) = Inr reading \<longrightarrow>
       async_update_data api m u = Inr reading) \<and>
   (get_last_reading api (get_meter_id m) = Inl AccessTokenExpired \<longrightarrow>
       async_update_data api m u =
         Inl (ConfigEntryAuthFailed ''Got token expired while communicating with API'')) \<and>
   (\<forall>err. get_last_reading api (get_meter_id m) = Inl (HTTPError err) \<longrightarrow>
       async_update_data api m u = Inl (UpdateFailed (''Error communicating with API: '' @ err))) \<and>
   (\<forall>err. get_last_reading api (get_meter_id m) = Inl (OtherException err) \<longrightarrow>
       async_update_data api m u =
         Inl (UpdateFailed (''Unexpected error while communicating with API: '' @ err))) \<and>
   (\<forall>e. async_update_data api m u = Inl e \<longrightarrow>
       (\<exists>msg. e = ConfigEntryAuthFailed msg) \<or> (\<exists>msg. e = UpdateFailed msg))"
  by (auto simp add: async_update_data_def split: sum.splits vendor_exn.splits)

theorem update_failures_two_channels_witness:
  "get_last_reading example_api (get_meter_id electricity_meter) = Inr electricity_reading \<and>
   async_update_data example_api electricity_meter () = Inr electricity_reading \<and>
   get_last_reading (failing_api AccessTokenExpired) (get_meter_id electricity_meter) =
     Inl AccessTokenExpired \<and>
   async_update_data (failing_api AccessTokenExpired) electricity_meter () =
     Inl (ConfigEntryAuthFailed ''Got token expired while communicating with API'') \<and>
   get_last_reading (failing_api (HTTPError ''503'')) (get_meter_id electricity_meter) =
     Inl (HTTPError ''503'') \<and>
   async_update_data (failing_api (HTTPError ''503'')) electricity_meter () =
     Inl (UpdateFailed ''Error communicating with API: 503'') \<and>
   get_last_reading (failing_api (OtherException ''timeout'')) (get_meter_id electricity_meter) =
     Inl (OtherException ''timeout'') \<and>
   async_update_data (failing_api (OtherException ''timeout'')) electricity_meter () =
     Inl (UpdateFailed ''Unexpected error while communicating with API: timeout'')"
proof -
  have h1: "get_last_reading example_api (get_meter_id electricity_meter) = Inr electricity_reading"
    by (simp add: example_defs)
  have h2: "get_last_reading (failing_api err) (get_meter_id electricity_meter) = Inl err" for err
    by (simp add: failing_api_def)
  from update_failures_two_channels [of example_api electricity_meter "()"] h1
  have "async_update_data example_api electricity_meter () = Inr electricity_reading"
    by blast
  moreover
  from update_failures_two_channels [of "failing_api AccessTokenExpired" electricity_meter "()"] h2
  have "async_update_data (failing_api AccessTokenExpired) electricity_meter () =
     Inl (ConfigEntryAuthFailed ''Got token expired while communicating with API'')"
    by blast
  moreover
  from update_failures_two_channels [of "failing_api (HTTPError ''503'')" electricity_meter "()"] h2
  have "async_update_data (failing_api (HTTPError ''503'')) electricity_meter () =
     Inl (UpdateFailed (''Error communicating with API: '' @ ''503''))"
    by blast
  moreover
  from update_failures_two_channels [of "failing_api (OtherException ''timeout'')" electricity_meter "()"] h2
  have "async_update_data (failing_api (OtherException ''timeout'')) electricity_meter () =
     Inl (UpdateFailed (''Unexpected error while communicating with API: '' @ ''timeout''))"
    by blast
  ultimately show ?thesis using h1 h2 by simp
qed

subsection \<open>One coordinator per meter\<close>

text \<open>
  C5. When the first fetch of every meter returns a Reading, the setup returns and
  has constructed exactly one coordinator per meter of the list, at the new addresses
  \<open>allocated s + i\<close>, without touching the coordinators that existed before. The
  coordinator of the \<open>i\<close>-th meter polls that meter, belongs to the entry and holds the
  meter's first Reading; it is stored in \<^verbatim>\<open>data.coordinators\<close> under the id of the
  meter (and is still found there at the end unless a later meter of the list has the
  same id). The events of the call are, meter by meter: the coordinator is created,
  refreshed for the first time and stored, and only then the entities of that meter
  are built, each referring to this coordinator and to no other.
\<close>

theorem one_coordinator_per_meter:
  assumes ok: "\<forall>m \<in> set (meters data). get_last_reading (api_client data) (get_meter_id m) = Inr (rd m)"
  shows "\<exists>s' entities built.
     async_setup_entry c s data entry = (s', Inr entities) \<and>
     allocated s' = allocated s + length (meters data) \<and>
     (\<forall>r < allocated s. heap s' r = heap s r) \<and>
     (\<forall>i < length (meters data).
        update_method (heap s' (allocated s + i)) = async_update_data (api_client data) (meters data ! i) \<and>
        config_entry (heap s' (allocated s + i)) = Some entry \<and>
        coordinator_data (heap s' (allocated s + i)) = Some (rd (meters data ! i)) \<and>
        ((\<forall>j < length (meters data). i < j \<longrightarrow>
             get_meter_id (meters data ! j) \<noteq> get_meter_id (meters data ! i)) \<longrightarrow>
         coordinators s' (get_meter_id (meters data ! i)) = Some (allocated s + i))) \<and>
     length built = length (meters data) \<and>
     entities = concat built \<and>
     (\<forall>i < length (meters data). \<forall>e \<in> set (built ! i). coordinator e = allocated s + i) \<and>
     trace s' = trace s @
       concat (map (\<lambda>i. [CoordinatorCreated (allocated s + i), FirstRefresh (allocated s + i),
                          CoordinatorStored (get_meter_id (meters data ! i)) (allocated s + i)]
                         @ map EntityBuilt (built ! i)) [0..<length (meters data)])"
proof -
  let ?ms = "meters data" and ?api = "api_client data" and ?iv = "interval_of c entry"
  let ?E = "\<lambda>i. entities_for_meter c (rd (?ms ! i)) (sensors_for s (?ms ! i)) (?ms ! i) (allocated s + i)"
  let ?built = "map ?E [0..<length ?ms]"
  from ok have ok': "all_ok ?api rd ?ms" by (simp add: all_ok_def)
  obtain s' entities where run: "setup_meters c ?api entry ?iv ?ms (s, []) = (s', Inr entities)"
    using setup_meters_success [OF ok'] by blast
  have alloc: "allocated s' = allocated s + length ?ms"
    using setup_meters_allocated [OF ok', of c entry ?iv s "[]"] run by simp
  have old: "\<forall>r < allocated s. heap s' r = heap s r"
    using setup_meters_heap_old [of _ s c ?api entry ?iv ?ms "[]"] run by simp
  have new: "heap s' (allocated s + i) = refreshed ?api (?ms ! i) ?iv entry (Some (rd (?ms ! i)))"
    if "i < length ?ms" for i
    using setup_meters_heap_new [OF ok' that, of c entry ?iv s "[]"] run by simp
  have dict: "coordinators s' (get_meter_id (?ms ! i)) = Some (allocated s + i)"
    if "i < length ?ms"
      "\<forall>j < length ?ms. i < j \<longrightarrow> get_meter_id (?ms ! j) \<noteq> get_meter_id (?ms ! i)" for i
    using setup_meters_coordinators_new [OF ok' that, of c entry ?iv s "[]"] run by simp
  have ents: "entities = concat ?built"
    using setup_meters_entities [OF ok', of c entry ?iv s "[]"] run by simp
  have coord: "\<forall>i < length ?ms. \<forall>e \<in> set (?built ! i). coordinator e = allocated s + i"
    by (auto dest: entity_origin)
  have tr: "trace s' = trace s @
       concat (map (\<lambda>i. [CoordinatorCreated (allocated s + i), FirstRefresh (allocated s + i),
                          CoordinatorStored (get_meter_id (?ms ! i)) (allocated s + i)]
                         @ map EntityBuilt (?built ! i)) [0..<length ?ms])"
  proof -
    have "map (\<lambda>i. [CoordinatorCreated (allocated s + i), FirstRefresh (allocated s + i),
                          CoordinatorStored (get_meter_id (?ms ! i)) (allocated s + i)]
                         @ map EntityBuilt (?built ! i)) [0..<length ?ms] =
          map (\<lambda>i. [CoordinatorCreated (allocated s + i), FirstRefresh (allocated s + i),
                          CoordinatorStored (get_meter_id (?ms ! i)) (allocated s + i)]
                         @ map EntityBuilt (?E i)) [0..<length ?ms]"
      by (rule map_cong) simp_all
    then show ?thesis
      using setup_meters_trace [OF ok', of c entry ?iv s "[]"] run by (simp del: map_eq_conv)
  qed
  have objs: "\<forall>i < length ?ms.
        update_method (heap s' (allocated s + i)) = async_update_data ?api (?ms ! i) \<and>
        config_entry (heap s' (allocated s + i)) = Some entry \<and>
        coordinator_data (heap s' (allocated s + i)) = Some (rd (?ms ! i)) \<and>
        ((\<forall>j < length ?ms. i < j \<longrightarrow> get_meter_id (?ms ! j) \<noteq> get_meter_id (?ms ! i)) \<longrightarrow>
         coordinators s' (get_meter_id (?ms ! i)) = Some (allocated s + i))"
    using new dict by (simp add: refreshed_def)
  have len: "length ?built = length ?ms" by simp
  from run alloc old objs len ents coord tr show ?thesis
    unfolding async_setup_entry_loop by blast
qed

theorem one_coordinator_per_meter_witness:
  "get_last_reading (api_client example_data) (get_meter_id electricity_meter) = Inr electricity_reading \<and>
   get_last_reading (api_client example_data) (get_meter_id gas_meter) = Inr gas_reading \<and>
   get_last_reading (api_client example_data) (get_meter_id heat_meter) = Inr heat_reading \<and>
   (\<exists>s' entities.
      async_setup_entry example_const module_loaded example_data example_entry = (s', Inr entities) \<and>
      allocated s' = 3 \<and>
      coordinator_data (heap s' 0) = Some electricity_reading \<and>
      coordinator_data (heap s' 1) = Some gas_reading \<and>
      coordinator_data (heap s' 2) = Some heat_reading \<and>
      coordinators s' ''EASYMETER_1'' = Some 0 \<and>
      coordinators s' ''GAS_2'' = Some 1 \<and>
      coordinators s' ''HEAT_3'' = Some 2 \<and>
      take 3 (trace s') = [CoordinatorCreated 0, FirstRefresh 0, CoordinatorStored ''EASYMETER_1'' 0])"
proof -
  have fetches:
    "get_last_reading (api_client example_data) (get_meter_id electricity_meter) = Inr electricity_reading"
    "get_last_reading (api_client example_data) (get_meter_id gas_meter) = Inr gas_reading"
    "get_last_reading (api_client example_data) (get_meter_id heat_meter) = Inr heat_reading"
    by (simp_all add: example_defs)
  have ms: "meters example_data = [electricity_meter, gas_meter, heat_meter]"
    by (simp add: example_data_def)
  have ids: "get_meter_id electricity_meter = ''EASYMETER_1''" "get_meter_id gas_meter = ''GAS_2''"
    "get_meter_id heat_meter = ''HEAT_3''"
    by (simp_all add: example_defs)
  have rds: "example_reading electricity_meter = electricity_reading"
    "example_reading gas_meter = gas_reading" "example_reading heat_meter = heat_reading"
    by (simp_all add: example_defs)
  have a0: "allocated module_loaded = 0" "trace module_loaded = []"
    by (simp_all add: module_loaded_def)
  from one_coordinator_per_meter [OF example_fetches, of example_const module_loaded example_entry]
  obtain s' entities built where
    run: "async_setup_entry example_const module_loaded example_data example_entry = (s', Inr entities)"
    and alloc: "allocated s' = allocated module_loaded + length (meters example_data)"
    and objs: "\<forall>i < length (meters example_data).
        update_method (heap s' (allocated module_loaded + i)) =
          async_update_data (api_client example_data) (meters example_data ! i) \<and>
        config_entry (heap s' (allocated module_loaded + i)) = Some example_entry \<and>
        coordinator_data (heap s' (allocated module_loaded + i)) =
          Some (example_reading (meters example_data ! i)) \<and>
        ((\<forall>j < length (meters example_data). i < j \<longrightarrow>
             get_meter_id (meters example_data ! j) \<noteq> get_meter_id (meters example_data ! i)) \<longrightarrow>
         coordinators s' (get_meter_id (meters example_data ! i)) = Some (allocated module_loaded + i))"
    and tr: "trace s' = trace module_loaded @
       concat (map (\<lambda>i. [CoordinatorCreated (allocated module_loaded + i),
                          FirstRefresh (allocated module_loaded + i),
                          CoordinatorStored (get_meter_id (meters example_data ! i))
                            (allocated module_loaded + i)]
                         @ map EntityBuilt (built ! i)) [0..<length (meters example_data)])"
    by blast
  from alloc have "allocated s' = 3" by (simp add: ms a0)
  moreover from objs [rule_format, of 0] have "coordinator_data (heap s' 0) = Some electricity_reading"
    "coordinators s' ''EASYMETER_1'' = Some 0"
    by (simp_all add: ms a0 ids rds less_Suc_eq)
  moreover from objs [rule_format, of 1] have "coordinator_data (heap s' 1) = Some gas_reading"
    "coordinators s' ''GAS_2'' = Some 1"
    by (simp_all add: ms a0 ids rds less_Suc_eq)
  moreover from objs [rule_format, of 2] have "coordinator_data (heap s' 2) = Some heat_reading"
    "coordinators s' ''HEAT_3'' = Some 2"
    by (simp_all add: ms a0 ids rds less_Suc_eq numeral_2_eq_2)
  moreover from tr
  have "take 3 (trace s') = [CoordinatorCreated 0, FirstRefresh 0, CoordinatorStored ''EASYMETER_1'' 0]"
    by (simp add: ms a0 ids upt_conv_Cons)
  ultimately show ?thesis using run fetches by blast
qed

subsection \<open>The table of a meter\<close>

text \<open>
  C6. While the module globals hold the tables built at load, the entities of a meter
  are exactly those of the table of its measurement type whose key is present. Every
  entity the setup creates belongs to a meter of the list whose measurement type is
  \<^verbatim>\<open>ELECTRICITY\<close> or \<^verbatim>\<open>GAS\<close>; its description is an entry of
  \<^verbatim>\<open>ELECTRICITY_SENSORS\<close> in the first case and of \<^verbatim>\<open>GAS_SENSORS\<close> in the second,
  and its data key is present in the first Reading of that meter. Conversely, for a
  meter of type \<^verbatim>\<open>ELECTRICITY\<close> every description of \<^verbatim>\<open>ELECTRICITY_SENSORS\<close>, and
  for a meter of type \<^verbatim>\<open>GAS\<close> every description of \<^verbatim>\<open>GAS_SENSORS\<close>, gets an
  entity for each of its keys that is present in the first Reading of the meter.
\<close>

theorem table_by_measurement_type:
  assumes run: "async_setup_entry c s data entry = (s', Inr entities)"
    and gas: "gas_sensors s = GAS_SENSORS"
    and electricity: "electricity_sensors s = ELECTRICITY_SENSORS"
  shows "(\<forall>e \<in> set entities. \<exists>i < length (meters data).
       coordinator e = allocated s + i \<and>
       ((measurement_type (meters data ! i) = ''ELECTRICITY'' \<and>
           entity_description e \<in> set ELECTRICITY_SENSORS) \<or>
        (measurement_type (meters data ! i) = ''GAS'' \<and>
           entity_description e \<in> set GAS_SENSORS)) \<and>
       (\<exists>reading. get_last_reading (api_client data) (get_meter_id (meters data ! i)) = Inr reading \<and>
           data_key e \<in> dom (reading_values reading))) \<and>
     (\<forall>i < length (meters data). \<forall>reading d k.
       get_last_reading (api_client data) (get_meter_id (meters data ! i)) = Inr reading \<longrightarrow>
       (measurement_type (meters data ! i) = ''ELECTRICITY'' \<and> d \<in> set ELECTRICITY_SENSORS) \<or>
       (measurement_type (meters data ! i) = ''GAS'' \<and> d \<in> set GAS_SENSORS) \<longrightarrow>
       k \<in> set (key d # alternative_keys d) \<longrightarrow>
       k \<in> dom (reading_values reading) \<longrightarrow>
         DiscovergySensor_init c k d (meters data ! i) (allocated s + i) \<in> set entities)"
proof -
  let ?ms = "meters data" and ?api = "api_client data" and ?iv = "interval_of c entry"
  let ?rd = "\<lambda>m. projr (get_last_reading ?api (get_meter_id m))"
  from run have snd_run: "snd (setup_meters c ?api entry ?iv ?ms (s, [])) = Inr entities"
    by (simp add: async_setup_entry_loop)
  then have ok: "all_ok ?api ?rd ?ms" by (rule setup_meters_success_fetch)
  have upper: "\<exists>i < length ?ms.
       coordinator e = allocated s + i \<and>
       ((measurement_type (?ms ! i) = ''ELECTRICITY'' \<and> entity_description e \<in> set ELECTRICITY_SENSORS) \<or>
        (measurement_type (?ms ! i) = ''GAS'' \<and> entity_description e \<in> set GAS_SENSORS)) \<and>
       (\<exists>reading. get_last_reading ?api (get_meter_id (?ms ! i)) = Inr reading \<and>
           data_key e \<in> dom (reading_values reading))"
    if e: "e \<in> set entities" for e
  proof -
    from setup_meters_entity_origin [OF ok snd_run e]
    obtain i d k where i: "i < length ?ms" and d: "d \<in> set (sensors_for s (?ms ! i))"
      and k: "k \<in> dom (reading_values (?rd (?ms ! i)))"
      and init: "e = DiscovergySensor_init c k d (?ms ! i) (allocated s + i)" by blast
    from ok i have fetch: "get_last_reading ?api (get_meter_id (?ms ! i)) = Inr (?rd (?ms ! i))"
      by (simp add: all_ok_def)
    from sensors_for_cases [OF d] gas electricity
    have "(measurement_type (?ms ! i) = ''ELECTRICITY'' \<and> d \<in> set ELECTRICITY_SENSORS) \<or>
          (measurement_type (?ms ! i) = ''GAS'' \<and> d \<in> set GAS_SENSORS)" by simp
    with i k init fetch show ?thesis by (intro exI [of _ i]) auto
  qed
  have lower: "DiscovergySensor_init c k d (?ms ! i) (allocated s + i) \<in> set entities"
    if i: "i < length ?ms"
      and fetch: "get_last_reading ?api (get_meter_id (?ms ! i)) = Inr reading"
      and table: "(measurement_type (?ms ! i) = ''ELECTRICITY'' \<and> d \<in> set ELECTRICITY_SENSORS) \<or>
                  (measurement_type (?ms ! i) = ''GAS'' \<and> d \<in> set GAS_SENSORS)"
      and k: "k \<in> set (key d # alternative_keys d)" "k \<in> dom (reading_values reading)"
    for i reading d k
  proof -
    from fetch have rd: "?rd (?ms ! i) = reading" by simp
    from table gas electricity have d: "d \<in> set (sensors_for s (?ms ! i))"
      by (auto simp add: sensors_for_def)
    from setup_meters_entity_complete [OF ok snd_run i d k(1)] k(2) rd show ?thesis by simp
  qed
  from upper lower show ?thesis by blast
qed

theorem table_by_measurement_type_witness:
  "gas_sensors module_loaded = GAS_SENSORS \<and>
   electricity_sensors module_loaded = ELECTRICITY_SENSORS \<and>
   get_last_reading (api_client example_data) (get_meter_id (meters example_data ! 0)) =
     Inr electricity_reading \<and>
   get_last_reading (api_client example_data) (get_meter_id (meters example_data ! 1)) =
     Inr gas_reading \<and>
   measurement_type (meters example_data ! 0) = ''ELECTRICITY'' \<and>
   measurement_type (meters example_data ! 1) = ''GAS'' \<and>
   ELECTRICITY_SENSORS ! 0 \<in> set ELECTRICITY_SENSORS \<and>
   GAS_SENSORS ! 0 \<in> set GAS_SENSORS \<and>
   ''power'' \<in> dom (reading_values electricity_reading) \<and>
   ''volume'' \<in> dom (reading_values gas_reading) \<and>
   (\<exists>s' entities.
      async_setup_entry example_const module_loaded example_data example_entry = (s', Inr entities) \<and>
      DiscovergySensor_init example_const ''power'' (ELECTRICITY_SENSORS ! 0) (meters example_data ! 0) 0
        \<in> set entities \<and>
      DiscovergySensor_init example_const ''volume'' (GAS_SENSORS ! 0) (meters example_data ! 1) 1
        \<in> set entities \<and>
      (\<forall>e \<in> set entities. \<exists>i < length (meters example_data).
         coordinator e = allocated module_loaded + i \<and>
         ((measurement_type (meters example_data ! i) = ''ELECTRICITY'' \<and>
             entity_description e \<in> set ELECTRICITY_SENSORS) \<or>
          (measurement_type (meters example_data ! i) = ''GAS'' \<and>
             entity_description e \<in> set GAS_SENSORS)) \<and>
         (\<exists>reading.
             get_last_reading (api_client example_data) (get_meter_id (meters example_data ! i)) =
               Inr reading \<and>
             data_key e \<in> dom (reading_values reading))))"
proof -
  have tables: "gas_sensors module_loaded = GAS_SENSORS"
    "electricity_sensors module_loaded = ELECTRICITY_SENSORS"
    by (simp_all add: module_loaded_def)
  have a0: "allocated module_loaded = 0" by (simp add: module_loaded_def)
  have len: "0 < length (meters example_data)" "1 < length (meters example_data)"
    by (simp_all add: example_data_def)
  have f0: "get_last_reading (api_client example_data) (get_meter_id (meters example_data ! 0)) =
      Inr electricity_reading"
    and f1: "get_last_reading (api_client example_data) (get_meter_id (meters example_data ! 1)) =
      Inr gas_reading"
    by (simp_all add: example_defs)
  have t0: "measurement_type (meters example_data ! 0) = ''ELECTRICITY''"
    and t1: "measurement_type (meters example_data ! 1) = ''GAS''"
    by (simp_all add: example_defs)
  have d0: "ELECTRICITY_SENSORS ! 0 \<in> set ELECTRICITY_SENSORS"
    and d1: "GAS_SENSORS ! 0 \<in> set GAS_SENSORS"
    by (simp_all add: ELECTRICITY_SENSORS_def GAS_SENSORS_def)
  have k0: "''power'' \<in> set (key (ELECTRICITY_SENSORS ! 0) # alternative_keys (ELECTRICITY_SENSORS ! 0))"
    and k1: "''volume'' \<in> set (key (GAS_SENSORS ! 0) # alternative_keys (GAS_SENSORS ! 0))"
    by (simp_all add: ELECTRICITY_SENSORS_def GAS_SENSORS_def description_def)
  have p0: "''power'' \<in> dom (reading_values electricity_reading)"
    and p1: "''volume'' \<in> dom (reading_values gas_reading)"
    by (simp_all add: electricity_reading_def gas_reading_def)
  obtain s' entities where
    run: "async_setup_entry example_const module_loaded example_data example_entry = (s', Inr entities)"
    using example_run
    by (cases "async_setup_entry example_const module_loaded example_data example_entry") auto
  note both = table_by_measurement_type [OF run tables]
  from both have upper: "\<forall>e \<in> set entities. \<exists>i < length (meters example_data).
         coordinator e = allocated module_loaded + i \<and>
         ((measurement_type (meters example_data ! i) = ''ELECTRICITY'' \<and>
             entity_description e \<in> set ELECTRICITY_SENSORS) \<or>
          (measurement_type (meters example_data ! i) = ''GAS'' \<and>
             entity_description e \<in> set GAS_SENSORS)) \<and>
         (\<exists>reading.
             get_last_reading (api_client example_data) (get_meter_id (meters example_data ! i)) =
               Inr reading \<and>
             data_key e \<in> dom (reading_values reading))"
    by blast
  from both have lower: "\<And>i reading d k. i < length (meters example_data) \<Longrightarrow>
       get_last_reading (api_client example_data) (get_meter_id (meters example_data ! i)) = Inr reading \<Longrightarrow>
       (measurement_type (meters example_data ! i) = ''ELECTRICITY'' \<and> d \<in> set ELECTRICITY_SENSORS) \<or>
       (measurement_type (meters example_data ! i) = ''GAS'' \<and> d \<in> set GAS_SENSORS) \<Longrightarrow>
       k \<in> set (key d # alternative_keys d) \<Longrightarrow>
       k \<in> dom (reading_values reading) \<Longrightarrow>
         DiscovergySensor_init example_const k d (meters example_data ! i) (allocated module_loaded + i)
           \<in> set entities"
    by blast
  from lower [OF len(1) f0 _ k0 p0] t0 d0 a0
  have m0: "DiscovergySensor_init example_const ''power'' (ELECTRICITY_SENSORS ! 0)
      (meters example_data ! 0) 0 \<in> set entities" by simp
  from lower [OF len(2) f1 _ k1 p1] t1 d1 a0
  have m1: "DiscovergySensor_init example_const ''volume'' (GAS_SENSORS ! 0)
      (meters example_data ! 1) 1 \<in> set entities" by simp
  from run m0 m1 upper have "\<exists>s' entities.
      async_setup_entry example_const module_loaded example_data example_entry = (s', Inr entities) \<and>
      DiscovergySensor_init example_const ''power'' (ELECTRICITY_SENSORS ! 0) (meters example_data ! 0) 0
        \<in> set entities \<and>
      DiscovergySensor_init example_const ''volume'' (GAS_SENSORS ! 0) (meters example_data ! 1) 1
        \<in> set entities \<and>
      (\<forall>e \<in> set entities. \<exists>i < length (meters example_data).
         coordinator e = allocated module_loaded + i \<and>
         ((measurement_type (meters example_data ! i) = ''ELECTRICITY'' \<and>
             entity_description e \<in> set ELECTRICITY_SENSORS) \<or>
          (measurement_type (meters example_data ! i) = ''GAS'' \<and>
             entity_description e \<in> set GAS_SENSORS)) \<and>
         (\<exists>reading.
             get_last_reading (api_client example_data) (get_meter_id (meters example_data ! i)) =
               Inr reading \<and>
             data_key e \<in> dom (reading_values reading)))"
    by blast
  with tables f0 f1 t0 t1 d0 d1 p0 p1 show ?thesis by blast
qed

subsection \<open>The tables are only read\<close>

text \<open>
  C7. The setup, which constructs the coordinators and the entities, leaves the two
  tables as they were, whether it returns or raises: every field of every description
  is unchanged. The description of every entity it created is an entry of these tables.
  \<^verbatim>\<open>native_value\<close> is a function of the state that returns no state, as the method
  assigns nothing.
\<close>

theorem tables_unchanged_by_setup:
  "gas_sensors (fst (async_setup_entry c s data entry)) = gas_sensors s \<and>
   electricity_sensors (fst (async_setup_entry c s data entry)) = electricity_sensors s \<and>
   (\<forall>entities. snd (async_setup_entry c s data entry) = Inr entities \<longrightarrow>
      (\<forall>e \<in> set entities.
         entity_description e \<in> set (gas_sensors s) \<union> set (electricity_sensors s)))"
proof -
  let ?ms = "meters data" and ?api = "api_client data" and ?iv = "interval_of c entry"
  let ?rd = "\<lambda>m. projr (get_last_reading ?api (get_meter_id m))"
  have "entity_description e \<in> set (gas_sensors s) \<union> set (electricity_sensors s)"
    if run: "snd (setup_meters c ?api entry ?iv ?ms (s, [])) = Inr entities"
      and e: "e \<in> set entities" for entities e
  proof -
    from run have ok: "all_ok ?api ?rd ?ms" by (rule setup_meters_success_fetch)
    from setup_meters_entity_origin [OF ok run e]
    obtain i d k where d: "d \<in> set (sensors_for s (?ms ! i))"
      and init: "e = DiscovergySensor_init c k d (?ms ! i) (allocated s + i)" by blast
    from sensors_for_cases [OF d] init show ?thesis by auto
  qed
  with setup_meters_tables [of c ?api entry ?iv ?ms s "[]"] show ?thesis
    by (simp add: async_setup_entry_loop)
qed

theorem tables_unchanged_by_setup_witness:
  "gas_sensors (fst (async_setup_entry example_const module_loaded example_data example_entry)) =
     GAS_SENSORS \<and>
   electricity_sensors (fst (async_setup_entry example_const module_loaded example_data example_entry)) =
     ELECTRICITY_SENSORS \<and>
   (\<exists>entities.
      snd (async_setup_entry example_const module_loaded example_data example_entry) = Inr entities \<and>
      length entities = 5 \<and>
      (\<forall>e \<in> set entities. entity_description e \<in> set GAS_SENSORS \<union> set ELECTRICITY_SENSORS))"
proof -
  have tables: "gas_sensors module_loaded = GAS_SENSORS"
    "electricity_sensors module_loaded = ELECTRICITY_SENSORS"
    by (simp_all add: module_loaded_def)
  from example_run obtain entities where
    run: "snd (async_setup_entry example_const module_loaded example_data example_entry) = Inr entities"
    and len: "length entities = 5" by simp
  from tables_unchanged_by_setup [of example_const module_loaded example_data example_entry]
    run len tables
  show ?thesis by simp
qed

subsection \<open>The unique id\<close>

text \<open>
  C8. The unique id of every entity the setup creates is the full serial number of its
  meter, a hyphen, and the key of its description; the data key under which the entity
  was matched does not occur in it. Two entities of the same description for the same
  meter therefore have the same unique id.
\<close>

theorem unique_id_from_description_key:
  assumes run: "async_setup_entry c s data entry = (s', Inr entities)"
  shows "(\<forall>e \<in> set entities. \<exists>i < length (meters data).
            coordinator e = allocated s + i \<and>
            attr_unique_id e =
              full_serial_number (meters data ! i) @ ''-'' @ key (entity_description e)) \<and>
         (\<forall>e1 \<in> set entities. \<forall>e2 \<in> set entities.
            coordinator e1 = coordinator e2 \<and> entity_description e1 = entity_description e2 \<longrightarrow>
            attr_unique_id e1 = attr_unique_id e2)"
proof -
  let ?ms = "meters data" and ?api = "api_client data" and ?iv = "interval_of c entry"
  let ?rd = "\<lambda>m. projr (get_last_reading ?api (get_meter_id m))"
  from run have snd_run: "snd (setup_meters c ?api entry ?iv ?ms (s, [])) = Inr entities"
    by (simp add: async_setup_entry_loop)
  then have ok: "all_ok ?api ?rd ?ms" by (rule setup_meters_success_fetch)
  have first: "\<exists>i < length ?ms. coordinator e = allocated s + i \<and>
      attr_unique_id e = full_serial_number (?ms ! i) @ ''-'' @ key (entity_description e)"
    if "e \<in> set entities" for e
  proof -
    from setup_meters_entity_origin [OF ok snd_run that]
    obtain i d k where i: "i < length ?ms"
      and init: "e = DiscovergySensor_init c k d (?ms ! i) (allocated s + i)" by blast
    then show ?thesis by (intro exI [of _ i]) simp
  qed
  have second: "attr_unique_id e1 = attr_unique_id e2"
    if "e1 \<in> set entities" "e2 \<in> set entities" "coordinator e1 = coordinator e2"
      "entity_description e1 = entity_description e2" for e1 e2
  proof -
    from first [OF that(1)] obtain i where
      i: "coordinator e1 = allocated s + i"
        "attr_unique_id e1 = full_serial_number (?ms ! i) @ ''-'' @ key (entity_description e1)"
      by blast
    from first [OF that(2)] obtain j where
      j: "coordinator e2 = allocated s + j"
        "attr_unique_id e2 = full_serial_number (?ms ! j) @ ''-'' @ key (entity_description e2)"
      by blast
    from i(1) j(1) that(3) have "i = j" by simp
    with i(2) j(2) that(4) show ?thesis by simp
  qed
  from first second show ?thesis by blast
qed

theorem unique_id_from_description_key_witness:
  "\<exists>s' entities e1 e2.
     async_setup_entry example_const module_loaded example_data example_entry = (s', Inr entities) \<and>
     e1 \<in> set entities \<and> e2 \<in> set entities \<and>
     data_key e1 = ''power1'' \<and> data_key e2 = ''phase1Power'' \<and>
     coordinator e1 = coordinator e2 \<and> entity_description e1 = entity_description e2 \<and>
     attr_unique_id e1 = attr_unique_id e2 \<and>
     attr_unique_id e1 = ''1ESY1-power1''"
proof -
  let ?e1 = "DiscovergySensor_init example_const ''power1'' (ELECTRICITY_SENSORS ! 1) electricity_meter 0"
  let ?e2 = "DiscovergySensor_init example_const ''phase1Power'' (ELECTRICITY_SENSORS ! 1) electricity_meter 0"
  obtain s' entities where
    run: "async_setup_entry example_const module_loaded example_data example_entry = (s', Inr entities)"
    using example_run
    by (cases "async_setup_entry example_const module_loaded example_data example_entry") auto
  with example_run have mem: "?e1 \<in> set entities" "?e2 \<in> set entities" by simp_all
  from unique_id_from_description_key [OF run] mem
  have same: "attr_unique_id ?e1 = attr_unique_id ?e2" by simp
  have id: "attr_unique_id ?e1 = ''1ESY1-power1''"
    by (simp add: ELECTRICITY_SENSORS_def description_def electricity_meter_def)
  from run mem same id show ?thesis
    by (intro exI [of _ s'] exI [of _ entities] exI [of _ ?e1] exI [of _ ?e2]) simp
qed

subsection \<open>The scale is never zero\<close>

text \<open>
  C9. Every description of the two tables has a positive scale: 10000000000 for the two
  energy descriptions and the default 1000 for the others. So for an entity of one of
  these descriptions whose data key is present in the current Reading of its
  coordinator, \<^verbatim>\<open>native_value\<close> raises neither \<^verbatim>\<open>ZeroDivisionError\<close> nor
  \<^verbatim>\<open>KeyError\<close>: it returns a value, unless the raw value is an integer so large
  that the quotient is no float (\<^verbatim>\<open>OverflowError\<close>).
\<close>

theorem native_value_never_faults:
  "(\<forall>d \<in> set (GAS_SENSORS @ ELECTRICITY_SENSORS).
      0 < scale d \<and>
      scale d = (if key d = ''energy'' \<or> key d = ''energyOut'' then 10000000000 else 1000)) \<and>
   (entity_description self \<in> set (GAS_SENSORS @ ELECTRICITY_SENSORS) \<longrightarrow>
    coordinator_data (heap s (coordinator self)) = Some reading \<longrightarrow>
    data_key self \<in> dom (reading_values reading) \<longrightarrow>
      native_value s self \<noteq> Inl ZeroDivisionError \<and>
      (\<forall>k. native_value s self \<noteq> Inl (KeyError k)) \<and>
      ((\<exists>v. native_value s self = Inr v) \<or> native_value s self = Inl OverflowError))"
proof -
  have scales: "\<forall>d \<in> set (GAS_SENSORS @ ELECTRICITY_SENSORS).
      0 < scale d \<and>
      scale d = (if key d = ''energy'' \<or> key d = ''energyOut'' then 10000000000 else 1000)"
    by (simp add: GAS_SENSORS_def ELECTRICITY_SENSORS_def description_def)
  have "native_value s self \<noteq> Inl ZeroDivisionError \<and>
      (\<forall>k. native_value s self \<noteq> Inl (KeyError k)) \<and>
      ((\<exists>v. native_value s self = Inr v) \<or> native_value s self = Inl OverflowError)"
    if d: "entity_description self \<in> set (GAS_SENSORS @ ELECTRICITY_SENSORS)"
      and rd: "coordinator_data (heap s (coordinator self)) = Some reading"
      and k: "data_key self \<in> dom (reading_values reading)"
  proof -
    from scales d have sc: "scale (entity_description self) = 1000 \<or>
        scale (entity_description self) = 10000000000"
      by (auto split: if_splits)
    from k obtain raw where raw: "reading_values reading (data_key self) = Some raw" by auto
    with rd have eq: "native_value s self = truediv raw (scale (entity_description self))"
      by (simp add: native_value_def)
    from sc have "(\<exists>v. truediv raw (scale (entity_description self)) = Inr v) \<or>
        truediv raw (scale (entity_description self)) = Inl OverflowError"
      by (cases raw) (auto simp add: truediv_def Let_def float_of_int_scales)
    with eq show ?thesis by auto
  qed
  with scales show ?thesis by blast
qed

theorem native_value_never_faults_witness:
  "entity_description energy_sensor \<in> set (GAS_SENSORS @ ELECTRICITY_SENSORS) \<and>
   coordinator_data (heap polled_state (coordinator energy_sensor)) = Some electricity_reading \<and>
   data_key energy_sensor \<in> dom (reading_values electricity_reading) \<and>
   native_value polled_state energy_sensor \<noteq> Inl ZeroDivisionError \<and>
   native_value polled_state energy_sensor \<noteq> Inl (KeyError ''energy'') \<and>
   native_value polled_state energy_sensor = Inr (5 / 2)"
proof -
  have h1: "entity_description energy_sensor \<in> set (GAS_SENSORS @ ELECTRICITY_SENSORS)"
    by (simp add: energy_sensor_def ELECTRICITY_SENSORS_def)
  have h2: "coordinator_data (heap polled_state (coordinator energy_sensor)) = Some electricity_reading"
    by (simp add: polled_state_def energy_sensor_def refreshed_def module_loaded_def)
  have h3: "data_key energy_sensor \<in> dom (reading_values electricity_reading)"
    by (simp add: energy_sensor_def electricity_reading_def)
  from native_value_never_faults [of energy_sensor polled_state electricity_reading] h1 h2 h3
  have c: "native_value polled_state energy_sensor \<noteq> Inl ZeroDivisionError"
    "native_value polled_state energy_sensor \<noteq> Inl (KeyError ''energy'')"
    by blast+
  have raw: "reading_values electricity_reading (data_key energy_sensor) = Some (PyInt 25000000000)"
    by (simp add: energy_sensor_def electricity_reading_def)
  have sc: "scale (entity_description energy_sensor) = 10000000000"
    by (simp add: energy_sensor_def ELECTRICITY_SENSORS_def description_def)
  from h2 raw sc truediv_energy have v: "native_value polled_state energy_sensor = Inr (5 / 2)"
    by (simp add: native_value_def)
  from h1 h2 h3 c v show ?thesis by blast
qed

subsection \<open>A meter of another measurement type\<close>

text \<open>
  C10. When the first fetch of every meter returns a Reading, the setup returns, and
  for a meter of the list whose measurement type is neither \<^verbatim>\<open>ELECTRICITY\<close> nor
  \<^verbatim>\<open>GAS\<close> a coordinator was constructed that polls this meter and holds its first
  Reading; it is stored under the id of the meter (unless a later meter of the list has
  the same id), and no entity of the result refers to it.
\<close>

theorem other_measurement_type_no_entities:
  assumes ok: "\<forall>m \<in> set (meters data). get_last_reading (api_client data) (get_meter_id m) = Inr (rd m)"
    and i: "i < length (meters data)"
    and not_electricity: "measurement_type (meters data ! i) \<noteq> ''ELECTRICITY''"
    and not_gas: "measurement_type (meters data ! i) \<noteq> ''GAS''"
  shows "\<exists>s' entities.
     async_setup_entry c s data entry = (s', Inr entities) \<and>
     allocated s + i < allocated s' \<and>
     update_method (heap s' (allocated s + i)) = async_update_data (api_client data) (meters data ! i) \<and>
     coordinator_data (heap s' (allocated s + i)) = Some (rd (meters data ! i)) \<and>
     ((\<forall>j < length (meters data). i < j \<longrightarrow>
          get_meter_id (meters data ! j) \<noteq> get_meter_id (meters data ! i)) \<longrightarrow>
      coordinators s' (get_meter_id (meters data ! i)) = Some (allocated s + i)) \<and>
     CoordinatorStored (get_meter_id (meters data ! i)) (allocated s + i) \<in> set (trace s') \<and>
     (\<forall>e \<in> set entities. coordinator e \<noteq> allocated s + i)"
proof -
  let ?ms = "meters data" and ?api = "api_client data" and ?iv = "interval_of c entry"
  from ok have ok': "all_ok ?api rd ?ms" by (simp add: all_ok_def)
  obtain s' entities where run: "setup_meters c ?api entry ?iv ?ms (s, []) = (s', Inr entities)"
    using setup_meters_success [OF ok'] by blast
  have alloc: "allocated s + i < allocated s'"
    using setup_meters_allocated [OF ok', of c entry ?iv s "[]"] run i by simp
  have obj: "heap s' (allocated s + i) = refreshed ?api (?ms ! i) ?iv entry (Some (rd (?ms ! i)))"
    using setup_meters_heap_new [OF ok' i, of c entry ?iv s "[]"] run by simp
  have dict: "coordinators s' (get_meter_id (?ms ! i)) = Some (allocated s + i)"
    if "\<forall>j < length ?ms. i < j \<longrightarrow> get_meter_id (?ms ! j) \<noteq> get_meter_id (?ms ! i)"
    using setup_meters_coordinators_new [OF ok' i that, of c entry ?iv s "[]"] run by simp
  have stored: "CoordinatorStored (get_meter_id (?ms ! i)) (allocated s + i) \<in> set (trace s')"
    using setup_meters_trace [OF ok', of c entry ?iv s "[]"] run i by auto
  have none: "coordinator e \<noteq> allocated s + i" if e: "e \<in> set entities" for e
  proof
    assume same: "coordinator e = allocated s + i"
    from setup_meters_entity_origin [OF ok', of c entry ?iv s entities e] run e
    obtain j d k where d: "d \<in> set (sensors_for s (?ms ! j))"
      and init: "e = DiscovergySensor_init c k d (?ms ! j) (allocated s + j)" by auto
    from init same have "j = i" by simp
    with d not_electricity not_gas show False by (simp add: sensors_for_def)
  qed
  from run alloc obj dict stored none show ?thesis
    by (simp add: async_setup_entry_loop refreshed_def)
qed

theorem other_measurement_type_no_entities_witness:
  "get_last_reading (api_client example_data) (get_meter_id electricity_meter) = Inr electricity_reading \<and>
   get_last_reading (api_client example_data) (get_meter_id gas_meter) = Inr gas_reading \<and>
   get_last_reading (api_client example_data) (get_meter_id heat_meter) = Inr heat_reading \<and>
   meters example_data ! 2 = heat_meter \<and>
   measurement_type heat_meter = ''HEAT'' \<and>
   (\<exists>s' entities.
      async_setup_entry example_const module_loaded example_data example_entry = (s', Inr entities) \<and>
      coordinator_data (heap s' 2) = Some heat_reading \<and>
      coordinators s' ''HEAT_3'' = Some 2 \<and>
      filter (\<lambda>e. coordinator e = 2) entities = [] \<and>
      length entities = 5)"
proof -
  have fetches:
    "get_last_reading (api_client example_data) (get_meter_id electricity_meter) = Inr electricity_reading"
    "get_last_reading (api_client example_data) (get_meter_id gas_meter) = Inr gas_reading"
    "get_last_reading (api_client example_data) (get_meter_id heat_meter) = Inr heat_reading"
    by (simp_all add: example_defs)
  have ms: "meters example_data = [electricity_meter, gas_meter, heat_meter]"
    by (simp add: example_data_def)
  have heat: "meters example_data ! 2 = heat_meter" "measurement_type heat_meter = ''HEAT''"
    "get_meter_id heat_meter = ''HEAT_3''" "example_reading heat_meter = heat_reading"
    by (simp_all add: example_defs)
  have i: "2 < length (meters example_data)" by (simp add: ms)
  have t1: "measurement_type (meters example_data ! 2) \<noteq> ''ELECTRICITY''"
    and t2: "measurement_type (meters example_data ! 2) \<noteq> ''GAS''"
    by (simp_all add: heat)
  have later: "\<forall>j < length (meters example_data). 2 < j \<longrightarrow>
      get_meter_id (meters example_data ! j) \<noteq> get_meter_id (meters example_data ! 2)"
    by (simp add: ms)
  from other_measurement_type_no_entities [OF example_fetches i t1 t2, of example_const module_loaded example_entry]
  obtain s' entities where
    run: "async_setup_entry example_const module_loaded example_data example_entry = (s', Inr entities)"
    and data: "coordinator_data (heap s' (allocated module_loaded + 2)) =
       Some (example_reading (meters example_data ! 2))"
    and dict: "(\<forall>j < length (meters example_data). 2 < j \<longrightarrow>
          get_meter_id (meters example_data ! j) \<noteq> get_meter_id (meters example_data ! 2)) \<longrightarrow>
      coordinators s' (get_meter_id (meters example_data ! 2)) = Some (allocated module_loaded + 2)"
    and none: "\<forall>e \<in> set entities. coordinator e \<noteq> allocated module_loaded + 2"
    by blast
  have a0: "allocated module_loaded = 0" by (simp add: module_loaded_def)
  from data have d2: "coordinator_data (heap s' 2) = Some heat_reading" by (simp add: a0 ms heat(2-) numeral_2_eq_2)
  from dict later have c2: "coordinators s' ''HEAT_3'' = Some 2" by (simp add: a0 ms heat(2-) numeral_2_eq_2)
  from none have f2: "filter (\<lambda>e. coordinator e = 2) entities = []"
    by (simp add: a0 filter_empty_conv numeral_2_eq_2)
  from run example_run have len: "length entities = 5" by simp
  from fetches heat run d2 c2 f2 len show ?thesis by blast
qed

end
